theory Spec2Isabelle
  imports Main
begin

section \<open>JavaScript values\<close>

text \<open>
  The values that \<^verbatim>\<open>JSON.parse\<close> produces and that the gateway passes around.
  Numbers are modelled as integers (a fraction has the truthiness of a non-zero integer);
  strings are lists of characters with codes below 256.  A missing property
  (\<^verbatim>\<open>undefined\<close>) is \<open>None\<close> of \<open>json option\<close>.
\<close>

datatype json =
    JNull
  | JBool bool
  | JNum int
  | JStr string
  | JArr "json list"
  | JObj "(string \<times> json) list"

text \<open>JavaScript truthiness, as used by \<^verbatim>\<open>!x\<close> and \<^verbatim>\<open>x || y\<close>.\<close>

fun truthy :: "json \<Rightarrow> bool" where
  "truthy JNull = False"
| "truthy (JBool b) = b"
| "truthy (JNum n) = (n \<noteq> 0)"
| "truthy (JStr s) = (s \<noteq> [])"
| "truthy (JArr xs) = True"
| "truthy (JObj kvs) = True"

definition truthy_opt :: "json option \<Rightarrow> bool" where
  "truthy_opt v = (case v of None \<Rightarrow> False | Some x \<Rightarrow> truthy x)"

text \<open>
  Reading a property of a value that is neither \<^verbatim>\<open>null\<close> nor \<^verbatim>\<open>undefined\<close>.  In an
  object parsed from a text with a repeated key the last occurrence wins.  The names
  read by the gateway (\<^verbatim>\<open>id\<close>, \<^verbatim>\<open>transport\<close>, \<^verbatim>\<open>message\<close>, ...) are not properties of
  strings, numbers, booleans or arrays, so the read gives \<^verbatim>\<open>undefined\<close> there.
\<close>

fun getProp :: "json \<Rightarrow> string \<Rightarrow> json option" where
  "getProp (JObj kvs) k = map_of (rev kvs) k"
| "getProp v k = None"

text \<open>An object literal; a field whose value is \<^verbatim>\<open>undefined\<close> is left out.\<close>

fun obj :: "(string \<times> json option) list \<Rightarrow> (string \<times> json) list" where
  "obj [] = []"
| "obj ((k, None) # fs) = obj fs"
| "obj ((k, Some v) # fs) = (k, v) # obj fs"

text \<open>Environment variables and fields holding a string or \<^verbatim>\<open>undefined\<close>.\<close>

definition truthy_str :: "string option \<Rightarrow> bool" where
  "truthy_str v = (case v of None \<Rightarrow> False | Some s \<Rightarrow> s \<noteq> [])"

text \<open>A string or \<^verbatim>\<open>undefined\<close> inside a template literal.\<close>

definition tmpl :: "string option \<Rightarrow> string" where
  "tmpl v = (case v of None \<Rightarrow> ''undefined'' | Some s \<Rightarrow> s)"

definition str_json :: "string option \<Rightarrow> json option" where
  "str_json v = map_option JStr v"

subsection \<open>Values in template literals\<close>

text \<open>
  A number as \<^verbatim>\<open>parseInt\<close> returns it.  \<open>Num i\<close> is the number whose shortest decimal
  digits, filled up with zeros, spell the integer \<open>i\<close>; up to \<^verbatim>\<open>2^53\<close> that is the integer
  \<open>i\<close> itself.
\<close>

datatype jsnum = NaN | PosInfinity | NegInfinity | Num int

definition digit_char :: "nat \<Rightarrow> char" where
  "digit_char d = ''0123456789'' ! d"

function show_nat :: "nat \<Rightarrow> string" where
  "show_nat n = (if n < 10 then [digit_char n] else show_nat (n div 10) @ [digit_char (n mod 10)])"
  by pat_completeness auto
termination
  by (relation "measure id") auto

declare show_nat.simps [simp del]

definition strip_zeros :: "string \<Rightarrow> string" where
  "strip_zeros ds = rev (dropWhile (\<lambda>c. c = CHR ''0'') (rev ds))"

text \<open>
  The text of a number from \<^verbatim>\<open>1e21\<close> upwards, from its decimal digits: the first
  significant digit, the others after a point, and the exponent, as in \<^verbatim>\<open>1e+21\<close> and
  \<^verbatim>\<open>1.25e+22\<close>.
\<close>

definition exponent_form :: "string \<Rightarrow> string" where
  "exponent_form ds =
     (case strip_zeros ds of
        [] \<Rightarrow> ds
      | d # rest \<Rightarrow>
          d # (if rest = [] then [] else CHR ''.'' # rest) @ ''e+'' @ show_nat (length ds - 1))"

text \<open>The text of a number in a template literal (\<^verbatim>\<open>Number.prototype.toString\<close>).\<close>

fun show_num :: "jsnum \<Rightarrow> string" where
  "show_num NaN = ''NaN''"
| "show_num PosInfinity = ''Infinity''"
| "show_num NegInfinity = ''-Infinity''"
| "show_num (Num i) =
     (let digits = show_nat (nat \<bar>i\<bar>);
          text = (if \<bar>i\<bar> < 10 ^ 21 then digits else exponent_form digits)
      in if i < 0 then CHR ''-'' # text else text)"

text \<open>
  The text of a value in a template literal, \<open>None\<close> when the conversion throws a
  \<^verbatim>\<open>TypeError\<close>.  An object is converted by its \<^verbatim>\<open>toString\<close>: the inherited one gives
  \<^verbatim>\<open>[object Object]\<close>, and an own property of that name, which in parsed JSON is never a
  function, makes the conversion throw.  An array joins the texts of its elements with
  commas, \<^verbatim>\<open>null\<close> elements giving the empty text.
\<close>

fun toText :: "json \<Rightarrow> string option"
  and joinTexts :: "json list \<Rightarrow> string option" where
  "toText JNull = Some ''null''"
| "toText (JBool b) = Some (if b then ''true'' else ''false'')"
| "toText (JNum n) = Some (show_num (Num n))"
| "toText (JStr s) = Some s"
| "toText (JArr xs) = joinTexts xs"
| "toText (JObj kvs) =
     (if ''toString'' \<in> set (map fst kvs) then None else Some ''[object Object]'')"
| "joinTexts [] = Some []"
| "joinTexts (x # xs) =
     (case (if x = JNull then Some [] else toText x) of
        None \<Rightarrow> None
      | Some t \<Rightarrow>
          (case joinTexts xs of
             None \<Rightarrow> None
           | Some ts \<Rightarrow> Some (if xs = [] then t else t @ '','' @ ts)))"

text \<open>The same for a property that may be missing: \<^verbatim>\<open>undefined\<close> has a text.\<close>

definition toText_opt :: "json option \<Rightarrow> string option" where
  "toText_opt v = (case v of None \<Rightarrow> Some ''undefined'' | Some x \<Rightarrow> toText x)"

section \<open>The three revisions of the integration component\<close>

text \<open>
  The repository holds three copies of the class \<^verbatim>\<open>VapiService\<close>:
  \<^verbatim>\<open>src/server/vapi_integration.js\<close> (\<open>Server_js\<close>), \<^verbatim>\<open>src/unnamed/part_001\<close>
  (\<open>Part_001\<close>) and \<^verbatim>\<open>src/unnamed/part_002\<close> (\<open>Part_002\<close>).  Every function below takes
  the revision as its first argument and branches on it exactly where the copies differ.
\<close>

datatype revision = Server_js | Part_001 | Part_002

record env =
  VAPI_PRIVATE_KEY :: "string option"
  VAPI_PUBLIC_KEY :: "string option"
  VAPI_ASSISTANT_ID :: "string option"

record service =
  privateKey :: "string option"
  publicKey :: "string option"
  apiKey :: "string option"
  assistantId :: "string option"
  initialized :: bool

definition baseUrl :: "revision \<Rightarrow> string" where
  "baseUrl r = (if r = Part_002 then ''https://api.vapi.ai'' else ''api.vapi.ai'')"

text \<open>
  \<^verbatim>\<open>validateConfig\<close>: \<open>Server_js\<close> tests that the three values are present, \<open>Part_001\<close>
  also rejects the placeholder texts, and \<open>Part_002\<close> makes the same tests without
  returning early, clearing \<^verbatim>\<open>isValid\<close> at each failed one.
\<close>

definition validateConfig :: "revision \<Rightarrow> service \<Rightarrow> bool" where
  "validateConfig r s =
     (if r = Server_js then
        (if \<not> truthy_str (privateKey s) then False
         else if \<not> truthy_str (publicKey s) then False
         else if \<not> truthy_str (assistantId s) then False
         else True)
      else if r = Part_001 then
        (if \<not> truthy_str (privateKey s) \<or> privateKey s = Some ''your_private_key_here'' then False
         else if \<not> truthy_str (publicKey s) \<or> publicKey s = Some ''your_public_key_here'' then False
         else if \<not> truthy_str (assistantId s) \<or> assistantId s = Some ''your_assistant_id_here'' then False
         else True)
      else
        (let isValid = True;
             isValid = (if \<not> truthy_str (privateKey s) \<or> privateKey s = Some ''your_private_key_here''
                        then False else isValid);
             isValid = (if \<not> truthy_str (publicKey s) \<or> publicKey s = Some ''your_public_key_here''
                        then False else isValid);
             isValid = (if \<not> truthy_str (assistantId s) \<or> assistantId s = Some ''your_assistant_id_here''
                        then False else isValid)
         in isValid))"

text \<open>
  \<^verbatim>\<open>initialize\<close> sets the flag; in \<open>Server_js\<close> it checks the configuration first and leaves
  the flag alone when the check fails.
\<close>

definition initialize :: "revision \<Rightarrow> service \<Rightarrow> service" where
  "initialize r s =
     (if r = Server_js then (if \<not> validateConfig r s then s else s\<lparr> initialized := True \<rparr>)
      else s\<lparr> initialized := True \<rparr>)"

text \<open>
  The constructor reads the environment; \<open>Server_js\<close> then calls \<^verbatim>\<open>initialize\<close> in any
  case, the other two only when the configuration is valid.
\<close>

definition VapiService :: "revision \<Rightarrow> env \<Rightarrow> service" where
  "VapiService r e =
     (let s = \<lparr> privateKey = VAPI_PRIVATE_KEY e, publicKey = VAPI_PUBLIC_KEY e,
                 apiKey = VAPI_PRIVATE_KEY e, assistantId = VAPI_ASSISTANT_ID e,
                 initialized = False \<rparr>
      in if r = Server_js then initialize r s
         else if validateConfig r s then initialize r s
         else s)"

definition destroy :: "service \<Rightarrow> service" where
  "destroy s = s\<lparr> initialized := False \<rparr>"

section \<open>Transport client\<close>

datatype http_method = GET | POST | DELETE | PATCH

record request =
  hostname :: string
  path :: string
  httpMethod :: http_method
  headers :: "(string \<times> string) list"
  payload :: "json option"

text \<open>
  What comes back from one \<^verbatim>\<open>https.request\<close>: the \<^verbatim>\<open>error\<close> event with its message
  (\<open>Failed\<close>), the \<^verbatim>\<open>end\<close> event after the whole body has been received (\<open>Response\<close>), or
  a \<^verbatim>\<open>TypeError\<close> thrown by the call itself, which refuses a path or a header value with
  characters it does not accept (\<open>Refused\<close>).
\<close>

datatype reply = Failed string | Response int string | Refused string

text \<open>
  The platform the service runs on: the upstream provider behind \<^verbatim>\<open>https.request\<close> and
  \<^verbatim>\<open>JSON.parse\<close> (\<open>None\<close> when it throws a \<^verbatim>\<open>SyntaxError\<close>).
\<close>

record world =
  upstream :: "request \<Rightarrow> reply"
  JSON_parse :: "string \<Rightarrow> json option"

datatype detail = NoDetail | UpstreamMessage string | RawBody string

datatype parse_cause = SyntaxError | NullResponse | MessageConversion

text \<open>
  One constructor for each \<^verbatim>\<open>new Error(...)\<close> of the source and for the \<^verbatim>\<open>TypeError\<close>
  that reading a property of \<^verbatim>\<open>null\<close> or calling a missing method raises:
  \<^item> \<open>NotInitialized\<close>: \<^verbatim>\<open>VapiService not initialized. Please check configuration.\<close>
  \<^item> \<open>ApiKeyNotConfigured\<close>: \<^verbatim>\<open>Vapi API key not configured\<close>
  \<^item> \<open>PrivateKeyNotConfigured\<close>: \<^verbatim>\<open>Vapi private key not configured\<close>
  \<^item> \<open>AssistantIdNotConfigured\<close>: \<^verbatim>\<open>Assistant ID not configured\<close>
  \<^item> \<open>PhoneNumberRequired\<close>: \<^verbatim>\<open>Phone number is required\<close>
  \<^item> \<open>InvalidPhoneFormat\<close>: \<^verbatim>\<open>Invalid phone number format. Use international format (+1234567890)\<close>
  \<^item> \<open>CallIdRequired\<close>: \<^verbatim>\<open>Call ID is required\<close>
  \<^item> \<open>InvalidApiResponse\<close>: \<^verbatim>\<open>Invalid response from Vapi API - missing required fields\<close>
  \<^item> \<open>InvalidServiceResponse\<close>: \<^verbatim>\<open>Invalid response from Vapi service\<close>
  \<^item> \<open>ApiError code d\<close>: \<^verbatim>\<open>API Error: code\<close>, followed by \<^verbatim>\<open> - \<close> and the upstream message
    or the raw body unless \<open>d = NoDetail\<close>
  \<^item> \<open>ParseError c\<close>: \<^verbatim>\<open>Parse Error: \<close> and the message of the exception caught, which is
    the \<^verbatim>\<open>SyntaxError\<close> of \<^verbatim>\<open>JSON.parse\<close>, or the \<^verbatim>\<open>TypeError\<close> of reading \<^verbatim>\<open>message\<close> from
    \<^verbatim>\<open>null\<close> or of converting the message to text
  \<^item> \<open>RequestError m\<close>: \<^verbatim>\<open>Request Error: m\<close>
  \<^item> \<open>TypeError what\<close>: the \<^verbatim>\<open>TypeError\<close> raised by the expression \<open>what\<close>
\<close>

datatype error =
    NotInitialized
  | ApiKeyNotConfigured
  | PrivateKeyNotConfigured
  | AssistantIdNotConfigured
  | PhoneNumberRequired
  | InvalidPhoneFormat
  | CallIdRequired
  | InvalidApiResponse
  | InvalidServiceResponse
  | ApiError int detail
  | ParseError parse_cause
  | RequestError string
  | TypeError string

type_synonym outcome = "request list \<times> (error + json)"

definition success_status :: "int \<Rightarrow> bool" where
  "success_status code = (200 \<le> code \<and> code < 300)"

text \<open>
  The body of the \<^verbatim>\<open>try\<close> in the \<^verbatim>\<open>end\<close> callback after the empty-body case:
  \<^verbatim>\<open>JSON.parse\<close>, then the classification by status.  Reading \<^verbatim>\<open>response.message\<close>
  of a parsed \<^verbatim>\<open>null\<close> throws inside the same \<^verbatim>\<open>try\<close>, and so does the template literal
  when the message has no text.
\<close>

definition parse_and_classify :: "world \<Rightarrow> int \<Rightarrow> string \<Rightarrow> error + json" where
  "parse_and_classify w code text =
     (case JSON_parse w text of
        None \<Rightarrow> Inl (ParseError SyntaxError)
      | Some response \<Rightarrow>
          if success_status code then Inr response
          else if response = JNull then Inl (ParseError NullResponse)
          else (case getProp response ''message'' of
                  None \<Rightarrow> Inl (ApiError code (RawBody text))
                | Some m \<Rightarrow>
                    if truthy m then
                      (case toText m of
                         None \<Rightarrow> Inl (ParseError MessageConversion)
                       | Some t \<Rightarrow> Inl (ApiError code (UpstreamMessage t)))
                    else Inl (ApiError code (RawBody text))))"

definition on_end :: "revision \<Rightarrow> world \<Rightarrow> int \<Rightarrow> string \<Rightarrow> error + json" where
  "on_end r w code text =
     (if r = Part_002 \<and> text = [] then
        (if success_status code then Inr (JObj []) else Inl (ApiError code NoDetail))
      else parse_and_classify w code text)"

text \<open>
  \<^verbatim>\<open>makeRequest(options, data)\<close>: one request, no retry.  \<open>Part_002\<close> replaces the host
  name of the options by the host of \<^verbatim>\<open>new URL(this.baseUrl)\<close>, which is
  \<^verbatim>\<open>api.vapi.ai\<close>.  The data are written only when truthy.  The result carries the
  requests handed to \<^verbatim>\<open>https.request\<close>; an error thrown by that call rejects the promise
  as it is.
\<close>

definition prepared :: "revision \<Rightarrow> request \<Rightarrow> json option \<Rightarrow> request" where
  "prepared r options data =
     (let requestOptions = (if r = Part_002 then options\<lparr> hostname := ''api.vapi.ai'' \<rparr> else options)
      in requestOptions\<lparr> payload := (if truthy_opt data then data else None) \<rparr>)"

definition makeRequest :: "revision \<Rightarrow> world \<Rightarrow> request \<Rightarrow> json option \<Rightarrow> outcome" where
  "makeRequest r w options data =
     (let req = prepared r options data
      in ([req],
          case upstream w req of
            Failed m \<Rightarrow> Inl (RequestError m)
          | Response code text \<Rightarrow> on_end r w code text
          | Refused what \<Rightarrow> Inl (TypeError what)))"

text \<open>The \<^verbatim>\<open>Authorization\<close> header of a request.\<close>

definition authorization :: "request \<Rightarrow> string option" where
  "authorization req = map_of (headers req) ''Authorization''"

section \<open>Call gateway\<close>

text \<open>\<^verbatim>\<open>a || b\<close> on values that may be \<^verbatim>\<open>undefined\<close>.\<close>

definition or_else :: "json option \<Rightarrow> json option \<Rightarrow> json option" where
  "or_else a b = (if truthy_opt a then a else b)"

definition bearer_headers :: "string option \<Rightarrow> (string \<times> string) list" where
  "bearer_headers key =
     [(''Authorization'', ''Bearer '' @ tmpl key), (''Content-Type'', ''application/json'')]"

text \<open>
  The guard \<^verbatim>\<open>if (!this.initialized) throw ...\<close> that opens every operation of
  \<open>Part_001\<close> and \<open>Part_002\<close>; \<open>Server_js\<close> has it in no operation.
\<close>

definition init_guard :: "revision \<Rightarrow> service \<Rightarrow> bool" where
  "init_guard r s = (r \<noteq> Server_js \<and> \<not> initialized s)"

definition getAssistant :: "revision \<Rightarrow> world \<Rightarrow> service \<Rightarrow> outcome" where
  "getAssistant r w s =
     (if init_guard r s then ([], Inl NotInitialized)
      else if \<not> truthy_str (assistantId s) then ([], Inl AssistantIdNotConfigured)
      else makeRequest r w
             \<lparr> hostname = baseUrl r, path = ''/assistant/'' @ tmpl (assistantId s),
               httpMethod = GET, headers = bearer_headers (apiKey s), payload = None \<rparr>
             None)"

subsection \<open>Phone numbers\<close>

text \<open>
  The class \<^verbatim>\<open>\s\<close> among the characters below 256: tab, line feed, vertical tab, form
  feed, carriage return, space and no-break space.
\<close>

definition is_space :: "char \<Rightarrow> bool" where
  "is_space c = (of_char c \<in> {9, 10, 11, 12, 13, 32, 160 :: nat})"

definition is_separator :: "char \<Rightarrow> bool" where
  "is_separator c = (is_space c \<or> c = CHR ''-'' \<or> c = CHR ''('' \<or> c = CHR '')'')"

text \<open>\<^verbatim>\<open>phoneNumber.replace(/[\s\-\(\)]/g, '')\<close>\<close>

definition strip_separators :: "string \<Rightarrow> string" where
  "strip_separators p = filter (\<lambda>c. \<not> is_separator c) p"

definition is_digit :: "char \<Rightarrow> bool" where
  "is_digit c = (c \<in> set ''0123456789'')"

definition is_nonzero_digit :: "char \<Rightarrow> bool" where
  "is_nonzero_digit c = (c \<in> set ''123456789'')"

text \<open>\<^verbatim>\<open>/^\+?[1-9]\d{8,14}$/.test(s)\<close>, read from left to right.\<close>

definition drop_plus :: "string \<Rightarrow> string" where
  "drop_plus s = (case s of [] \<Rightarrow> [] | c # cs \<Rightarrow> if c = CHR ''+'' then cs else c # cs)"

definition phoneRegex_test :: "string \<Rightarrow> bool" where
  "phoneRegex_test s =
     (case drop_plus s of
        [] \<Rightarrow> False
      | d # ds \<Rightarrow> is_nonzero_digit d \<and> 8 \<le> length ds \<and> length ds \<le> 14 \<and> list_all is_digit ds)"

text \<open>
  The language of the pattern \<^verbatim>\<open>^\+?[1-9]\d{8,14}$\<close>, written as the pattern reads: an
  optional plus sign, one digit from 1 to 9, then between 8 and 14 digits, and nothing
  else.
\<close>

definition phone_pattern :: "string set" where
  "phone_pattern =
     {sign @ d # ds | sign d ds.
        (sign = [] \<or> sign = ''+'') \<and> d \<in> set ''123456789'' \<and>
        set ds \<subseteq> set ''0123456789'' \<and> 8 \<le> length ds \<and> length ds \<le> 14}"

text \<open>\<^verbatim>\<open>cleanPhone.startsWith('+') ? cleanPhone : `+${cleanPhone}`\<close>\<close>

definition with_plus :: "string \<Rightarrow> string" where
  "with_plus s = (case s of [] \<Rightarrow> ''+'' | c # cs \<Rightarrow> if c = CHR ''+'' then c # cs else CHR ''+'' # c # cs)"

definition phone_callData :: "service \<Rightarrow> string \<Rightarrow> json option \<Rightarrow> json" where
  "phone_callData s cleanPhone customAssistantId =
     JObj (obj [(''assistantId'', or_else customAssistantId (str_json (assistantId s))),
                (''phoneNumberId'', Some JNull),
                (''customer'', Some (JObj [(''number'', JStr (with_plus cleanPhone))]))])"

text \<open>
  \<^verbatim>\<open>makeCall(phoneNumber, customAssistantId)\<close>.  The phone number is whatever the caller
  passes; a truthy value that is not a string has no \<^verbatim>\<open>replace\<close> method.  After the
  request, \<^verbatim>\<open>result.id\<close> is read for the log line, which throws when the upstream
  answered a 2xx with the body \<^verbatim>\<open>null\<close>.
\<close>

definition makeCall :: "revision \<Rightarrow> world \<Rightarrow> service \<Rightarrow> json option \<Rightarrow> json option \<Rightarrow> outcome" where
  "makeCall r w s phoneNumber customAssistantId =
     (if init_guard r s then ([], Inl NotInitialized)
      else if \<not> truthy_str (apiKey s) then ([], Inl ApiKeyNotConfigured)
      else if \<not> truthy_opt phoneNumber then ([], Inl PhoneNumberRequired)
      else (case phoneNumber of
              Some (JStr p) \<Rightarrow>
                (let cleanPhone = strip_separators p in
                 if \<not> phoneRegex_test cleanPhone then ([], Inl InvalidPhoneFormat)
                 else (case makeRequest r w
                              \<lparr> hostname = baseUrl r, path = ''/call/phone'', httpMethod = POST,
                                headers = bearer_headers (apiKey s), payload = None \<rparr>
                              (Some (phone_callData s cleanPhone customAssistantId)) of
                         (reqs, Inl e) \<Rightarrow> (reqs, Inl e)
                       | (reqs, Inr result) \<Rightarrow>
                           if result = JNull then (reqs, Inl (TypeError ''result.id''))
                           else (reqs, Inr result)))
            | _ \<Rightarrow> ([], Inl (TypeError ''phoneNumber.replace''))))"

subsection \<open>Web calls\<close>

definition default_transport :: json where
  "default_transport =
     JObj [(''provider'', JStr ''vapi.websocket''),
           (''audioFormat'', JObj [(''format'', JStr ''pcm_s16le''),
                                    (''container'', JStr ''raw''),
                                    (''sampleRate'', JNum 16000)])]"

text \<open>
  \<^verbatim>\<open>!result || !result.id || !result.transport || !result.transport.websocketCallUrl\<close>,
  negated.
\<close>

definition has_required_fields :: "json \<Rightarrow> bool" where
  "has_required_fields result =
     (if \<not> truthy result then False
      else if \<not> truthy_opt (getProp result ''id'') then False
      else (case getProp result ''transport'' of
              None \<Rightarrow> False
            | Some t \<Rightarrow> if \<not> truthy t then False else truthy_opt (getProp t ''websocketCallUrl'')))"

text \<open>The own enumerable properties that an object spread copies.\<close>

fun spread :: "json \<Rightarrow> (string \<times> json) list" where
  "spread (JObj kvs) = kvs"
| "spread (JArr xs) = zip (map show_nat [0 ..< length xs]) xs"
| "spread (JStr cs) = zip (map show_nat [0 ..< length cs]) (map (\<lambda>c. JStr [c]) cs)"
| "spread v = []"

text \<open>\<^verbatim>\<open>{ ...result, publicKey: this.publicKey }\<close>\<close>

definition with_publicKey :: "json \<Rightarrow> string option \<Rightarrow> json" where
  "with_publicKey result key =
     JObj (filter (\<lambda>kv. fst kv \<noteq> ''publicKey'') (spread result)
           @ obj [(''publicKey'', str_json key)])"

definition web_callData :: "revision \<Rightarrow> service \<Rightarrow> json option \<Rightarrow> json option \<Rightarrow> json" where
  "web_callData r s customAssistantId transportConfig =
     (if r = Part_002 then
        JObj (obj [(''assistantId'', or_else customAssistantId (str_json (assistantId s))),
                   (''transport'', or_else transportConfig (Some default_transport))])
      else JObj (obj [(''assistantId'', or_else customAssistantId (str_json (assistantId s)))]))"

definition web_options :: "revision \<Rightarrow> service \<Rightarrow> request" where
  "web_options r s =
     (if r = Part_002 then
        \<lparr> hostname = baseUrl r, path = ''/call'', httpMethod = POST,
          headers = [(''Authorization'', ''Bearer '' @ tmpl (privateKey s)),
                     (''Content-Type'', ''application/json''),
                     (''Accept'', ''application/json'')],
          payload = None \<rparr>
      else
        \<lparr> hostname = baseUrl r, path = ''/call/web'', httpMethod = POST,
          headers = bearer_headers (publicKey s), payload = None \<rparr>)"

text \<open>
  \<^verbatim>\<open>createWebCall(customAssistantId, transportConfig)\<close>; the first two revisions declare
  the first parameter only and ignore a second argument.  They read \<^verbatim>\<open>result.id\<close> for the
  log line and return; \<open>Part_002\<close> validates the response first.
\<close>

definition createWebCall :: "revision \<Rightarrow> world \<Rightarrow> service \<Rightarrow> json option \<Rightarrow> json option \<Rightarrow> outcome" where
  "createWebCall r w s customAssistantId transportConfig =
     (if init_guard r s then ([], Inl NotInitialized)
      else if \<not> truthy_str (privateKey s) then ([], Inl PrivateKeyNotConfigured)
      else (case makeRequest r w (web_options r s)
                   (Some (web_callData r s customAssistantId transportConfig)) of
              (reqs, Inl e) \<Rightarrow> (reqs, Inl e)
            | (reqs, Inr result) \<Rightarrow>
                if r = Part_002 then
                  (if \<not> has_required_fields result then (reqs, Inl InvalidApiResponse)
                   else (reqs, Inr (with_publicKey result (publicKey s))))
                else if result = JNull then (reqs, Inl (TypeError ''result.id''))
                else (reqs, Inr (with_publicKey result (publicKey s)))))"

subsection \<open>Listing, reading and ending calls\<close>

text \<open>\<^verbatim>\<open>getCalls(limit = 100)\<close>: the default applies when the argument is \<^verbatim>\<open>undefined\<close>.\<close>

definition getCalls :: "revision \<Rightarrow> world \<Rightarrow> service \<Rightarrow> jsnum option \<Rightarrow> outcome" where
  "getCalls r w s limit_arg =
     (let limit = (case limit_arg of None \<Rightarrow> Num 100 | Some n \<Rightarrow> n) in
      if init_guard r s then ([], Inl NotInitialized)
      else if \<not> truthy_str (apiKey s) then ([], Inl ApiKeyNotConfigured)
      else makeRequest r w
             \<lparr> hostname = baseUrl r, path = ''/call?limit='' @ show_num limit,
               httpMethod = GET, headers = bearer_headers (apiKey s), payload = None \<rparr>
             None)"

definition getCall :: "revision \<Rightarrow> world \<Rightarrow> service \<Rightarrow> string option \<Rightarrow> outcome" where
  "getCall r w s callId =
     (if init_guard r s then ([], Inl NotInitialized)
      else if \<not> truthy_str (privateKey s) then ([], Inl PrivateKeyNotConfigured)
      else if \<not> truthy_str callId then ([], Inl CallIdRequired)
      else makeRequest r w
             \<lparr> hostname = baseUrl r, path = ''/call/'' @ tmpl callId,
               httpMethod = GET, headers = bearer_headers (privateKey s), payload = None \<rparr>
             None)"

definition endCall :: "revision \<Rightarrow> world \<Rightarrow> service \<Rightarrow> string option \<Rightarrow> outcome" where
  "endCall r w s callId =
     (if init_guard r s then ([], Inl NotInitialized)
      else if \<not> truthy_str (apiKey s) then ([], Inl ApiKeyNotConfigured)
      else if \<not> truthy_str callId then ([], Inl CallIdRequired)
      else makeRequest r w
             \<lparr> hostname = baseUrl r, path = ''/call/'' @ tmpl callId,
               httpMethod = DELETE, headers = bearer_headers (apiKey s), payload = None \<rparr>
             None)"

text \<open>
  \<^verbatim>\<open>getCallTranscript(callId)\<close>: \<^verbatim>\<open>call.transcript || null\<close>, where reading the property
  of a call that is \<^verbatim>\<open>null\<close> throws; every error is logged and thrown again.
\<close>

definition getCallTranscript :: "revision \<Rightarrow> world \<Rightarrow> service \<Rightarrow> string option \<Rightarrow> outcome" where
  "getCallTranscript r w s callId =
     (case getCall r w s callId of
        (reqs, Inl e) \<Rightarrow> (reqs, Inl e)
      | (reqs, Inr call) \<Rightarrow>
          if call = JNull then (reqs, Inl (TypeError ''call.transcript''))
          else (case getProp call ''transcript'' of
                  None \<Rightarrow> (reqs, Inr JNull)
                | Some t \<Rightarrow> if truthy t then (reqs, Inr t) else (reqs, Inr JNull)))"

definition updateAssistant :: "revision \<Rightarrow> world \<Rightarrow> service \<Rightarrow> json option \<Rightarrow> outcome" where
  "updateAssistant r w s updates =
     (if init_guard r s then ([], Inl NotInitialized)
      else if \<not> truthy_str (assistantId s) then ([], Inl AssistantIdNotConfigured)
      else makeRequest r w
             \<lparr> hostname = baseUrl r, path = ''/assistant/'' @ tmpl (assistantId s),
               httpMethod = PATCH, headers = bearer_headers (apiKey s), payload = None \<rparr>
             updates)"

section \<open>Health check\<close>

text \<open>
  The object that \<^verbatim>\<open>healthCheck\<close> resolves to: \<open>Not_configured message\<close>, \<open>Initializing\<close>,
  \<open>Healthy apiKeyPresent assistantId assistantName\<close>, or \<open>Health_error e\<close> whose message is
  the message of \<open>e\<close>.
\<close>

datatype health =
    Not_configured string
  | Initializing
  | Healthy bool "string option" json
  | Health_error error

fun status :: "health \<Rightarrow> string" where
  "status (Not_configured m) = ''not_configured''"
| "status Initializing = ''initializing''"
| "status (Healthy k a n) = ''healthy''"
| "status (Health_error e) = ''error''"

text \<open>\<^verbatim>\<open>assistantData?.name || 'Unknown'\<close>\<close>

definition assistantName :: "json \<Rightarrow> json" where
  "assistantName assistantData =
     (if assistantData = JNull then JStr ''Unknown''
      else (case getProp assistantData ''name'' of
              None \<Rightarrow> JStr ''Unknown''
            | Some n \<Rightarrow> if truthy n then n else JStr ''Unknown''))"

definition healthCheck :: "revision \<Rightarrow> world \<Rightarrow> service \<Rightarrow> request list \<times> health" where
  "healthCheck r w s =
     (if \<not> initialized s then
        (if r = Server_js then ([], Initializing)
         else ([], Not_configured ''Vapi service not initialized. Please check environment variables.''))
      else (case getAssistant r w s of
              (reqs, Inl e) \<Rightarrow> (reqs, Health_error e)
            | (reqs, Inr assistantData) \<Rightarrow>
                (reqs, Healthy (truthy_str (apiKey s)) (assistantId s) (assistantName assistantData))))"

section \<open>The boundary layer\<close>

text \<open>
  What a route handler sends: the status and the JSON body, which is
  \<^verbatim>\<open>{ success: true, data }\<close> (\<open>Data\<close>), \<^verbatim>\<open>{ success: true }\<close> (\<open>Ack\<close>),
  \<^verbatim>\<open>{ success: false, error }\<close> with a fixed text (\<open>ErrorText\<close>) or with the message of
  the error caught (\<open>ErrorOf\<close>).
\<close>

datatype reply_body = Data json | Ack | ErrorText string | ErrorOf error

record http_response =
  statusCode :: int
  body :: reply_body

text \<open>
  \<^verbatim>\<open>POST /api/vapi/call\<close>.  Destructuring a request body that is \<^verbatim>\<open>null\<close> or
  \<^verbatim>\<open>undefined\<close> throws inside the \<^verbatim>\<open>try\<close>.  The handler passes its fixed transport as
  second argument and checks the result again before it prunes it.
\<close>

definition pruned :: "json \<Rightarrow> json" where
  "pruned result =
     JObj (obj [(''id'', getProp result ''id''),
                (''transport'',
                   (case getProp result ''transport'' of
                      None \<Rightarrow> None
                    | Some t \<Rightarrow>
                        Some (JObj (obj [(''provider'', getProp t ''provider''),
                                         (''websocketCallUrl'', getProp t ''websocketCallUrl'')])))),
                (''publicKey'', getProp result ''publicKey'')])"

definition route_web_call ::
  "revision \<Rightarrow> world \<Rightarrow> service option \<Rightarrow> json option \<Rightarrow> request list \<times> http_response" where
  "route_web_call r w vapiService reqBody =
     (case vapiService of
        None \<Rightarrow> ([], \<lparr> statusCode = 503, body = ErrorText ''Vapi service unavailable'' \<rparr>)
      | Some s \<Rightarrow>
          (case reqBody of
             None \<Rightarrow> ([], \<lparr> statusCode = 500, body = ErrorOf (TypeError ''req.body'') \<rparr>)
           | Some JNull \<Rightarrow> ([], \<lparr> statusCode = 500, body = ErrorOf (TypeError ''req.body'') \<rparr>)
           | Some b \<Rightarrow>
               (case createWebCall r w s (getProp b ''assistantId'') (Some default_transport) of
                  (reqs, Inl e) \<Rightarrow> (reqs, \<lparr> statusCode = 500, body = ErrorOf e \<rparr>)
                | (reqs, Inr result) \<Rightarrow>
                    if \<not> has_required_fields result
                    then (reqs, \<lparr> statusCode = 500, body = ErrorOf InvalidServiceResponse \<rparr>)
                    else (reqs, \<lparr> statusCode = 200, body = Data (pruned result) \<rparr>))))"

text \<open>
  A call \<^verbatim>\<open>getCalls(a, b, ...)\<close>: the method declares one parameter, so the first
  argument is bound to it and the others are dropped.
\<close>

definition getCalls_call :: "revision \<Rightarrow> world \<Rightarrow> service \<Rightarrow> jsnum list \<Rightarrow> outcome" where
  "getCalls_call r w s args = getCalls r w s (case args of [] \<Rightarrow> None | a # rest \<Rightarrow> Some a)"

text \<open>
  \<^verbatim>\<open>GET /api/vapi/calls\<close>.  The query maps a parameter name to its text; \<^verbatim>\<open>parseInt\<close> is
  the platform's and is a parameter here.  The defaults 50 and 0 are numbers, which
  \<^verbatim>\<open>parseInt\<close> gives back unchanged.  The first argument of \<^verbatim>\<open>getCalls\<close> is therefore
  never \<^verbatim>\<open>undefined\<close>, and the default 100 of \<^verbatim>\<open>getCalls\<close> does not apply on this route.
\<close>

definition route_calls ::
  "revision \<Rightarrow> world \<Rightarrow> (string \<Rightarrow> jsnum) \<Rightarrow> service option \<Rightarrow> (string \<Rightarrow> string option)
     \<Rightarrow> request list \<times> http_response" where
  "route_calls r w parseInt vapiService query =
     (case vapiService of
        None \<Rightarrow> ([], \<lparr> statusCode = 503, body = ErrorText ''Vapi service unavailable'' \<rparr>)
      | Some s \<Rightarrow>
          (let limit = (case query ''limit'' of None \<Rightarrow> Num 50 | Some v \<Rightarrow> parseInt v);
               offset = (case query ''offset'' of None \<Rightarrow> Num 0 | Some v \<Rightarrow> parseInt v)
           in (case getCalls_call r w s [limit, offset] of
                 (reqs, Inl e) \<Rightarrow> (reqs, \<lparr> statusCode = 500, body = ErrorOf e \<rparr>)
               | (reqs, Inr calls) \<Rightarrow> (reqs, \<lparr> statusCode = 200, body = Data calls \<rparr>))))"

subsection \<open>Webhook\<close>

text \<open>
  \<^verbatim>\<open>console.log(format, value)\<close> with a first argument that is built from the payload
  and may hold conversion specifiers: what it does with them is the platform's, so it is
  a parameter, \<open>None\<close> when the call returns and the error when it throws.  The other log
  calls of the handler have a fixed first argument or no second one, and return.
\<close>

type_synonym console = "string \<Rightarrow> json \<Rightarrow> error option"

text \<open>The lines the webhook handler logs.\<close>

datatype observation =
    Received "json option" "json option"
  | StatusUpdated string string
  | NewTranscript string json
  | CallEnded string
  | SpeechUpdate json
  | ConversationUpdate json
  | EndOfCallReport json
  | Unhandled json json
  | WebhookError error

text \<open>
  The \<^verbatim>\<open>switch (type)\<close>, which compares with \<^verbatim>\<open>===\<close>; here \<open>data\<close> is truthy.  The result is
  the lines logged and the error thrown, if any: the template literals of the first
  three cases convert \<^verbatim>\<open>data.callId\<close> and \<^verbatim>\<open>data.status\<close> to text.
\<close>

definition dispatch :: "console \<Rightarrow> json \<Rightarrow> json \<Rightarrow> observation list \<times> error option" where
  "dispatch console_log type data =
     (if type = JStr ''status-update'' then
        (case getProp data ''callId'' of
           None \<Rightarrow> ([], None)
         | Some c \<Rightarrow>
             if \<not> truthy c then ([], None)
             else (case toText c of
                     None \<Rightarrow> ([], Some (TypeError ''data.callId''))
                   | Some callId \<Rightarrow>
                       (case toText_opt (getProp data ''status'') of
                          None \<Rightarrow> ([], Some (TypeError ''data.status''))
                        | Some st \<Rightarrow> ([StatusUpdated callId st], None))))
      else if type = JStr ''transcript'' then
        (case getProp data ''callId'' of
           None \<Rightarrow> ([], None)
         | Some c \<Rightarrow>
             if \<not> truthy c then ([], None)
             else (case getProp data ''transcript'' of
                     None \<Rightarrow> ([], None)
                   | Some t \<Rightarrow>
                       if \<not> truthy t then ([], None)
                       else (case toText c of
                               None \<Rightarrow> ([], Some (TypeError ''data.callId''))
                             | Some callId \<Rightarrow>
                                 (case console_log (''New transcript for call '' @ callId @ '':'') t of
                                    None \<Rightarrow> ([NewTranscript callId t], None)
                                  | Some e \<Rightarrow> ([], Some e)))))
      else if type = JStr ''call-ended'' then
        (case getProp data ''callId'' of
           None \<Rightarrow> ([], None)
         | Some c \<Rightarrow>
             if \<not> truthy c then ([], None)
             else (case toText c of
                     None \<Rightarrow> ([], Some (TypeError ''data.callId''))
                   | Some callId \<Rightarrow> ([CallEnded callId], None)))
      else if type = JStr ''speech-update'' then ([SpeechUpdate data], None)
      else if type = JStr ''conversation-update'' then ([ConversationUpdate data], None)
      else if type = JStr ''end-of-call-report'' then ([EndOfCallReport data], None)
      else ([Unhandled type data], None))"

text \<open>
  The handler of \<^verbatim>\<open>POST /api/vapi/webhook\<close>.  The argument is \<^verbatim>\<open>req.body\<close>; destructuring
  \<^verbatim>\<open>null\<close> or \<^verbatim>\<open>undefined\<close> throws.  Whatever is thrown inside the \<^verbatim>\<open>try\<close> is answered with
  status 200 and the message of the error.
\<close>

definition webhook :: "console \<Rightarrow> json option \<Rightarrow> observation list \<times> http_response" where
  "webhook console_log reqBody =
     (case reqBody of
        None \<Rightarrow> ([WebhookError (TypeError ''req.body'')],
                 \<lparr> statusCode = 200, body = ErrorOf (TypeError ''req.body'') \<rparr>)
      | Some JNull \<Rightarrow> ([WebhookError (TypeError ''req.body'')],
                       \<lparr> statusCode = 200, body = ErrorOf (TypeError ''req.body'') \<rparr>)
      | Some b \<Rightarrow>
          (case (getProp b ''type'', getProp b ''data'') of
             (Some type, Some data) \<Rightarrow>
               if \<not> truthy type \<or> \<not> truthy data
               then ([Received (Some type) (Some data)],
                     \<lparr> statusCode = 400, body = ErrorText ''Invalid webhook payload'' \<rparr>)
               else (case dispatch console_log type data of
                       (logged, None) \<Rightarrow>
                         (Received (Some type) (Some data) # logged,
                          \<lparr> statusCode = 200, body = Ack \<rparr>)
                     | (logged, Some e) \<Rightarrow>
                         (Received (Some type) (Some data) # logged @ [WebhookError e],
                          \<lparr> statusCode = 200, body = ErrorOf e \<rparr>))
           | (type, data) \<Rightarrow>
               ([Received type data],
                \<lparr> statusCode = 400, body = ErrorText ''Invalid webhook payload'' \<rparr>)))"

subsection \<open>The order in which app.js mounts its handlers\<close>

text \<open>
  The handlers that answer a request, in the order in which \<^verbatim>\<open>app.js\<close> registers them;
  the request goes to the first one whose method and path match.  The catch-all
  \<^verbatim>\<open>app.use('*', ...)\<close> that answers 404 is registered before the webhook route.  A request
  path is given by its segments (\<^verbatim>\<open>/api/vapi/webhook\<close> is \<open>[api, vapi, webhook]\<close>), a route
  path by its literal segments and parameters.  Middleware that hands the request on
  (security headers, rate limits, CORS, body parsers, static files, logging) and the error
  handler, which sees only failed requests, are left out.
\<close>

datatype handler =
    Health | Search | Assistant | PhoneCall | WebCall | Calls | Call | EndCall | Transcript
  | Config | Index | NotFound | Webhook

datatype segment = Lit string | Param

datatype route_path = Path "segment list" | Every

definition mounted :: "(http_method option \<times> route_path \<times> handler) list" where
  "mounted =
     [(Some GET, Path [Lit ''api'', Lit ''health''], Health),
      (Some POST, Path [Lit ''api'', Lit ''search''], Search),
      (Some GET, Path [Lit ''api'', Lit ''vapi'', Lit ''assistant''], Assistant),
      (Some POST, Path [Lit ''api'', Lit ''vapi'', Lit ''call'', Lit ''phone''], PhoneCall),
      (Some POST, Path [Lit ''api'', Lit ''vapi'', Lit ''call''], WebCall),
      (Some GET, Path [Lit ''api'', Lit ''vapi'', Lit ''calls''], Calls),
      (Some GET, Path [Lit ''api'', Lit ''vapi'', Lit ''calls'', Param], Call),
      (Some DELETE, Path [Lit ''api'', Lit ''vapi'', Lit ''calls'', Param], EndCall),
      (Some GET, Path [Lit ''api'', Lit ''vapi'', Lit ''calls'', Param, Lit ''transcript''],
         Transcript),
      (Some GET, Path [Lit ''api'', Lit ''vapi'', Lit ''config''], Config),
      (Some GET, Path [], Index),
      (None, Every, NotFound),
      (Some POST, Path [Lit ''api'', Lit ''vapi'', Lit ''webhook''], Webhook)]"

fun matches_segments :: "segment list \<Rightarrow> string list \<Rightarrow> bool" where
  "matches_segments [] [] = True"
| "matches_segments (Lit l # ps) (x # xs) = (l = x \<and> matches_segments ps xs)"
| "matches_segments (Param # ps) (x # xs) = (x \<noteq> [] \<and> matches_segments ps xs)"
| "matches_segments ps xs = False"

fun matches_route :: "http_method option \<times> route_path \<times> handler \<Rightarrow> http_method \<Rightarrow> string list \<Rightarrow> bool" where
  "matches_route (m, Every, h) method p = (m = None \<or> m = Some method)"
| "matches_route (m, Path ps, h) method p = ((m = None \<or> m = Some method) \<and> matches_segments ps p)"

definition responder :: "http_method \<Rightarrow> string list \<Rightarrow> handler option" where
  "responder method p =
     (case find (\<lambda>route. matches_route route method p) mounted of
        None \<Rightarrow> None
      | Some (m, rp, h) \<Rightarrow> Some h)"

text \<open>
  The answer of the application, for the two handlers modelled here; \<open>None\<close> stands for
  the answer of any other handler.
\<close>

definition as_mounted :: "console \<Rightarrow> http_method \<Rightarrow> string list \<Rightarrow> json option \<Rightarrow> http_response option" where
  "as_mounted console_log method p reqBody =
     (case responder method p of
        Some NotFound \<Rightarrow> Some \<lparr> statusCode = 404, body = ErrorText ''Route not found'' \<rparr>
      | Some Webhook \<Rightarrow> Some (snd (webhook console_log reqBody))
      | other \<Rightarrow> None)"

section \<open>Sample configurations and upstreams\<close>

text \<open>
  An upstream that answers every request with the given status and body, together with
  what \<^verbatim>\<open>JSON.parse\<close> makes of that body; and an upstream that cannot be reached.
\<close>

definition world_replying :: "int \<Rightarrow> string \<Rightarrow> json option \<Rightarrow> world" where
  "world_replying code text parsed =
     \<lparr> upstream = (\<lambda>req. Response code text),
       JSON_parse = (\<lambda>b. if b = text then parsed else None) \<rparr>"

definition world_unreachable :: "string \<Rightarrow> world" where
  "world_unreachable m = \<lparr> upstream = (\<lambda>req. Failed m), JSON_parse = (\<lambda>b. None) \<rparr>"

definition full_env :: env where
  "full_env = \<lparr> VAPI_PRIVATE_KEY = Some ''sk_private'', VAPI_PUBLIC_KEY = Some ''pk_public'',
                VAPI_ASSISTANT_ID = Some ''asst_1'' \<rparr>"

definition env_without_private_key :: env where
  "env_without_private_key =
     \<lparr> VAPI_PRIVATE_KEY = None, VAPI_PUBLIC_KEY = Some ''pk_public'',
       VAPI_ASSISTANT_ID = Some ''asst_1'' \<rparr>"

definition sample_call :: json where
  "sample_call =
     JObj [(''id'', JStr ''call_1''),
           (''transport'', JObj [(''provider'', JStr ''vapi.websocket''),
                                 (''websocketCallUrl'', JStr ''wss://api.vapi.ai/call_1'')])]"

text \<open>The response texts that \<^verbatim>\<open>JSON.parse\<close> turns into \<open>sample_call\<close> and \<open>not_found\<close>.\<close>

definition sample_call_text :: string where
  \<open>sample_call_text =
     ''{"id":"call_1","transport":{"provider":"vapi.websocket","websocketCallUrl":"wss://api.vapi.ai/call_1"}}''\<close>

definition not_found :: json where
  "not_found = JObj [(''message'', JStr ''Not Found'')]"

definition not_found_text :: string where
  \<open>not_found_text = ''{"message":"Not Found"}''\<close>

text \<open>The event types that the webhook handler names in its \<^verbatim>\<open>switch\<close>.\<close>

definition recognized_types :: "string list" where
  "recognized_types = [''status-update'', ''transcript'', ''call-ended'', ''speech-update'',
                       ''conversation-update'', ''end-of-call-report'']"

text \<open>
  A query string \<^verbatim>\<open>?limit=10&offset=20\<close> and the values \<^verbatim>\<open>parseInt\<close> gives on the texts
  that occur in it; the empty query; a console that never throws; a JSON value that has
  no text.
\<close>

definition empty_query :: "string \<Rightarrow> string option" where
  "empty_query name = None"

definition quiet_console :: console where
  "quiet_console format v = None"

definition unconvertible :: json where
  "unconvertible = JObj [(''toString'', JNum 1)]"

definition sample_query :: "string \<Rightarrow> string option" where
  "sample_query = map_of [(''limit'', ''10''), (''offset'', ''20'')]"

definition sample_parseInt :: "string \<Rightarrow> jsnum" where
  "sample_parseInt v = (if v = ''10'' then Num 10 else if v = ''20'' then Num 20 else NaN)"

section \<open>Unfolding the model on concrete inputs\<close>

lemma sample_texts_nonempty [simp]: "sample_call_text \<noteq> []" "not_found_text \<noteq> []"
  by (simp_all add: sample_call_text_def not_found_text_def)

lemmas value_defs = truthy_opt_def truthy_str_def tmpl_def str_json_def or_else_def

lemmas transport_defs = success_status_def parse_and_classify_def on_end_def prepared_def
  makeRequest_def authorization_def Let_def

lemmas service_defs = baseUrl_def validateConfig_def initialize_def VapiService_def destroy_def
  init_guard_def
  bearer_headers_def

lemmas phone_defs = is_space_def is_separator_def strip_separators_def is_digit_def
  is_nonzero_digit_def drop_plus_def phoneRegex_test_def with_plus_def phone_callData_def

lemmas web_defs = default_transport_def has_required_fields_def with_publicKey_def
  web_callData_def web_options_def pruned_def

lemmas sample_defs = world_replying_def world_unreachable_def full_env_def
  env_without_private_key_def sample_call_def

section \<open>Facts about the transport client\<close>

lemma fst_makeRequest: "fst (makeRequest r w options data) = [prepared r options data]"
  by (simp add: makeRequest_def Let_def)

lemma headers_prepared: "headers (prepared r options data) = headers options"
  by (simp add: prepared_def Let_def)

lemma path_prepared: "path (prepared r options data) = path options"
  by (simp add: prepared_def Let_def)

lemma payload_prepared:
  "payload (prepared r options data) = (if truthy_opt data then data else None)"
  by (simp add: prepared_def Let_def)

lemma makeRequest_sent:
  "makeRequest r w options data = (reqs, res) \<Longrightarrow> reqs = [prepared r options data]"
  using fst_makeRequest [of r w options data] by simp

lemma snd_makeRequest_response:
  "upstream w (prepared r options data) = Response code text \<Longrightarrow>
   snd (makeRequest r w options data) = on_end r w code text"
  by (simp add: makeRequest_def Let_def)

lemma makeRequest_response:
  "upstream w (prepared r options data) = Response code text \<Longrightarrow>
   makeRequest r w options data = ([prepared r options data], on_end r w code text)"
  by (simp add: makeRequest_def Let_def)

section \<open>Objects\<close>

lemma map_of_filter_other_key:
  "k \<noteq> k' \<Longrightarrow> map_of (filter (\<lambda>kv. fst kv \<noteq> k') kvs) k = map_of kvs k"
  by (induction kvs) auto

lemma getProp_with_publicKey:
  assumes "k \<noteq> ''publicKey''"
  shows "getProp (with_publicKey (JObj kvs) key) k = getProp (JObj kvs) k"
proof -
  have "map_of (rev (obj [(''publicKey'', str_json key)])) k = None"
    using assms by (cases key) (simp_all add: str_json_def)
  moreover have "map_of (rev (filter (\<lambda>kv. fst kv \<noteq> ''publicKey'') kvs)) k = map_of (rev kvs) k"
    using assms by (simp add: rev_filter map_of_filter_other_key)
  ultimately show ?thesis
    by (simp add: with_publicKey_def map_add_def)
qed

lemma has_required_fields_object:
  "has_required_fields result \<Longrightarrow> \<exists>kvs. result = JObj kvs"
  by (cases result) (auto simp: has_required_fields_def truthy_opt_def split: if_splits)

lemma has_required_fields_with_publicKey:
  assumes "has_required_fields result"
  shows "has_required_fields (with_publicKey result key)"
proof -
  from assms obtain kvs where r: "result = JObj kvs"
    using has_required_fields_object by blast
  have "getProp (with_publicKey (JObj kvs) key) ''id'' = getProp (JObj kvs) ''id''"
    by (rule getProp_with_publicKey) simp
  moreover have "getProp (with_publicKey (JObj kvs) key) ''transport'' = getProp (JObj kvs) ''transport''"
    by (rule getProp_with_publicKey) simp
  moreover have "truthy (with_publicKey (JObj kvs) key)"
    by (simp add: with_publicKey_def)
  ultimately show ?thesis
    using assms unfolding r has_required_fields_def
    by (auto split: if_splits option.splits)
qed

lemma has_required_fields_pruned:
  assumes "has_required_fields result"
  shows "has_required_fields (pruned result)"
proof -
  from assms obtain i t u where i: "getProp result ''id'' = Some i" "truthy i"
    and t: "getProp result ''transport'' = Some t" "truthy t"
    and u: "getProp t ''websocketCallUrl'' = Some u" "truthy u"
    by (auto simp: has_required_fields_def truthy_opt_def split: option.splits if_splits)
  show ?thesis
    by (cases "getProp result ''publicKey''"; cases "getProp t ''provider''")
       (simp_all add: pruned_def has_required_fields_def truthy_opt_def i t u)
qed

lemma not_required_fields_empty: "\<not> has_required_fields (JObj [])"
  by (simp add: has_required_fields_def truthy_opt_def)

section \<open>Web-call response validation\<close>

text \<open>
  C1, as amended.  In \<open>Part_002\<close>, \<^verbatim>\<open>createWebCall\<close> succeeds only when the upstream
  response has a truthy \<^verbatim>\<open>id\<close> and a truthy \<^verbatim>\<open>transport.websocketCallUrl\<close>, and the object
  it returns has both.  On a 2xx status it fails with the invalid-response error when
  the body is empty or parses to a payload that lacks either field, and with the parse
  error when the body does not parse.  In \<open>Server_js\<close> and \<open>Part_001\<close> it returns every
  parsed 2xx payload other than \<^verbatim>\<open>null\<close> with the public key added, whatever its fields.
  In every revision the route \<^verbatim>\<open>POST /api/vapi/call\<close> answers 200 only with an object that
  has both fields.
\<close>

theorem createWebCall_response_validation:
  "(createWebCall Part_002 w s a t = (reqs, Inr v) \<longrightarrow>
      has_required_fields v \<and>
      (\<exists>result. makeRequest Part_002 w (web_options Part_002 s) (Some (web_callData Part_002 s a t))
                   = (reqs, Inr result)
               \<and> has_required_fields result \<and> v = with_publicKey result (publicKey s)))
   \<and> (initialized s \<and> truthy_str (privateKey s)
        \<and> upstream w (prepared Part_002 (web_options Part_002 s)
                        (Some (web_callData Part_002 s a t))) = Response code text
        \<and> success_status code
      \<longrightarrow> snd (createWebCall Part_002 w s a t)
            = (if text = [] then Inl InvalidApiResponse
               else (case JSON_parse w text of
                       None \<Rightarrow> Inl (ParseError SyntaxError)
                     | Some result \<Rightarrow>
                         if has_required_fields result
                         then Inr (with_publicKey result (publicKey s))
                         else Inl InvalidApiResponse)))
   \<and> (r \<noteq> Part_002 \<and> \<not> init_guard r s \<and> truthy_str (privateKey s)
        \<and> upstream w (prepared r (web_options r s) (Some (web_callData r s a t)))
            = Response code text
        \<and> success_status code \<and> JSON_parse w text = Some result' \<and> result' \<noteq> JNull
      \<longrightarrow> snd (createWebCall r w s a t) = Inr (with_publicKey result' (publicKey s)))
   \<and> (route_web_call r w (Some s) b = (reqs'', resp) \<and> statusCode resp = 200 \<longrightarrow>
        (\<exists>d. body resp = Data d \<and> has_required_fields d))"
proof (intro conjI impI)
  assume ok: "createWebCall Part_002 w s a t = (reqs, Inr v)"
  then obtain result where
    m: "makeRequest Part_002 w (web_options Part_002 s) (Some (web_callData Part_002 s a t)) = (reqs, Inr result)"
    and h: "has_required_fields result" and v: "v = with_publicKey result (publicKey s)"
    by (auto simp: createWebCall_def split: if_splits prod.splits sum.splits)
  from h v show "has_required_fields v"
    by (simp add: has_required_fields_with_publicKey)
  from m h v show "\<exists>result. makeRequest Part_002 w (web_options Part_002 s) (Some (web_callData Part_002 s a t))
                   = (reqs, Inr result)
               \<and> has_required_fields result \<and> v = with_publicKey result (publicKey s)"
    by blast
next
  assume a: "initialized s \<and> truthy_str (privateKey s)
        \<and> upstream w (prepared Part_002 (web_options Part_002 s)
                        (Some (web_callData Part_002 s a t))) = Response code text
        \<and> success_status code"
  then have m: "makeRequest Part_002 w (web_options Part_002 s) (Some (web_callData Part_002 s a t))
        = ([prepared Part_002 (web_options Part_002 s) (Some (web_callData Part_002 s a t))],
           on_end Part_002 w code text)"
    by (simp add: makeRequest_response)
  show "snd (createWebCall Part_002 w s a t)
            = (if text = [] then Inl InvalidApiResponse
               else (case JSON_parse w text of
                       None \<Rightarrow> Inl (ParseError SyntaxError)
                     | Some result \<Rightarrow>
                         if has_required_fields result
                         then Inr (with_publicKey result (publicKey s))
                         else Inl InvalidApiResponse))"
    using a
    by (simp add: createWebCall_def init_guard_def m on_end_def parse_and_classify_def
        not_required_fields_empty split: option.splits)
next
  assume a: "r \<noteq> Part_002 \<and> \<not> init_guard r s \<and> truthy_str (privateKey s)
        \<and> upstream w (prepared r (web_options r s) (Some (web_callData r s a t)))
            = Response code text
        \<and> success_status code \<and> JSON_parse w text = Some result' \<and> result' \<noteq> JNull"
  then have m: "makeRequest r w (web_options r s) (Some (web_callData r s a t))
        = ([prepared r (web_options r s) (Some (web_callData r s a t))], on_end r w code text)"
    by (simp add: makeRequest_response)
  show "snd (createWebCall r w s a t) = Inr (with_publicKey result' (publicKey s))"
    using a by (simp add: createWebCall_def m on_end_def parse_and_classify_def)
next
  assume "route_web_call r w (Some s) b = (reqs'', resp) \<and> statusCode resp = 200"
  then obtain result where "has_required_fields result" "body resp = Data (pruned result)"
    by (auto simp: route_web_call_def split: option.splits json.splits prod.splits sum.splits if_splits)
  then show "\<exists>d. body resp = Data d \<and> has_required_fields d"
    by (simp add: has_required_fields_pruned)
qed

theorem createWebCall_response_validation_witness:
  "createWebCall Part_002 (world_replying 201 sample_call_text (Some sample_call))
       (VapiService Part_002 full_env) None None
     = ([prepared Part_002 (web_options Part_002 (VapiService Part_002 full_env))
           (Some (web_callData Part_002 (VapiService Part_002 full_env) None None))],
        Inr (with_publicKey sample_call (Some ''pk_public'')))
   \<and> has_required_fields (with_publicKey sample_call (Some ''pk_public''))
   \<and> initialized (VapiService Part_002 full_env)
   \<and> truthy_str (privateKey (VapiService Part_002 full_env))
   \<and> success_status 200
   \<and> snd (createWebCall Part_002 (world_replying 200 ''{}'' (Some (JObj [])))
       (VapiService Part_002 full_env) None None) = Inl InvalidApiResponse
   \<and> snd (createWebCall Part_002 (world_replying 200 [] None)
       (VapiService Part_002 full_env) None None) = Inl InvalidApiResponse
   \<and> snd (createWebCall Part_002 (world_replying 200 ''<html>'' None)
       (VapiService Part_002 full_env) None None) = Inl (ParseError SyntaxError)
   \<and> snd (createWebCall Part_001 (world_replying 200 ''{}'' (Some (JObj [])))
       (VapiService Part_001 full_env) None None)
     = Inr (with_publicKey (JObj []) (Some ''pk_public''))
   \<and> statusCode (snd (route_web_call Server_js (world_replying 201 sample_call_text (Some sample_call))
        (Some (VapiService Server_js full_env)) (Some (JObj [])))) = 200
   \<and> body (snd (route_web_call Server_js (world_replying 201 sample_call_text (Some sample_call))
        (Some (VapiService Server_js full_env)) (Some (JObj [])))) = Data (pruned (with_publicKey sample_call (Some ''pk_public'')))
   \<and> has_required_fields (pruned (with_publicKey sample_call (Some ''pk_public'')))"
  using createWebCall_response_validation
    [of "world_replying 201 sample_call_text (Some sample_call)" "VapiService Part_002 full_env" None None
        "[prepared Part_002 (web_options Part_002 (VapiService Part_002 full_env))
           (Some (web_callData Part_002 (VapiService Part_002 full_env) None None))]"
        "with_publicKey sample_call (Some ''pk_public'')" 201 sample_call_text Server_js]
    createWebCall_response_validation
    [of "world_replying 200 ''{}'' (Some (JObj []))" "VapiService Part_002 full_env" None None
        _ _ 200 "''{}''" Part_001 "JObj []"]
    createWebCall_response_validation
    [of "world_replying 200 [] None" "VapiService Part_002 full_env" None None
        _ _ 200 "[]"]
    createWebCall_response_validation
    [of "world_replying 200 ''<html>'' None" "VapiService Part_002 full_env" None None
        _ _ 200 "''<html>''"]
  by (simp add: createWebCall_def route_web_call_def makeRequest_def on_end_def
      parse_and_classify_def success_status_def world_replying_def VapiService_def
      initialize_def validateConfig_def full_env_def truthy_str_def init_guard_def
      has_required_fields_def truthy_opt_def sample_call_def with_publicKey_def str_json_def
      pruned_def)

text \<open>
  In \<open>Server_js\<close> (and \<open>Part_001\<close>) \<^verbatim>\<open>createWebCall\<close> does not look at the response: an
  upstream answer \<^verbatim>\<open>200 {}\<close> is returned to the caller with the public key added.
\<close>

theorem createWebCall_unvalidated_counterexample:
  "createWebCall Server_js (world_replying 200 ''{}'' (Some (JObj [])))
       (VapiService Server_js full_env) None None
     = ([\<lparr> hostname = ''api.vapi.ai'', path = ''/call/web'', httpMethod = POST,
           headers = [(''Authorization'', ''Bearer pk_public''),
                      (''Content-Type'', ''application/json'')],
           payload = Some (JObj [(''assistantId'', JStr ''asst_1'')]) \<rparr>],
        Inr (JObj [(''publicKey'', JStr ''pk_public'')]))
   \<and> \<not> has_required_fields (JObj [])
   \<and> \<not> has_required_fields (JObj [(''publicKey'', JStr ''pk_public'')])"
  by (simp add: createWebCall_def makeRequest_def prepared_def on_end_def
      parse_and_classify_def success_status_def world_replying_def VapiService_def
      initialize_def validateConfig_def full_env_def truthy_str_def init_guard_def
      has_required_fields_def truthy_opt_def with_publicKey_def str_json_def web_options_def
      web_callData_def baseUrl_def bearer_headers_def tmpl_def or_else_def)

section \<open>Which credential each operation sends\<close>

lemma authorization_prepared:
  "authorization (prepared r options data) = map_of (headers options) ''Authorization''"
  by (simp add: authorization_def headers_prepared)

lemma authorization_bearer:
  "map_of (bearer_headers key) ''Authorization'' = Some (''Bearer '' @ tmpl key)"
  by (simp add: bearer_headers_def)

lemma sent_getAssistant:
  assumes "req \<in> set (fst (getAssistant r w s))"
  shows "authorization req = Some (''Bearer '' @ tmpl (apiKey s))"
  using assms
  by (auto simp: getAssistant_def fst_makeRequest authorization_prepared authorization_bearer
      split: if_splits)

lemma sent_makeCall:
  assumes "req \<in> set (fst (makeCall r w s p a))"
  shows "authorization req = Some (''Bearer '' @ tmpl (apiKey s))"
  using assms
  by (auto simp: makeCall_def Let_def authorization_prepared authorization_bearer
      split: if_splits option.splits json.splits prod.splits sum.splits
      dest!: makeRequest_sent)

lemma sent_getCalls:
  assumes "req \<in> set (fst (getCalls r w s l))"
  shows "authorization req = Some (''Bearer '' @ tmpl (apiKey s))"
  using assms
  by (auto simp: getCalls_def Let_def fst_makeRequest authorization_prepared authorization_bearer
      split: if_splits)

lemma sent_getCall:
  assumes "req \<in> set (fst (getCall r w s c))"
  shows "authorization req = Some (''Bearer '' @ tmpl (privateKey s))"
  using assms
  by (auto simp: getCall_def fst_makeRequest authorization_prepared authorization_bearer
      split: if_splits)

lemma sent_endCall:
  assumes "req \<in> set (fst (endCall r w s c))"
  shows "authorization req = Some (''Bearer '' @ tmpl (apiKey s))"
  using assms
  by (auto simp: endCall_def fst_makeRequest authorization_prepared authorization_bearer
      split: if_splits)

lemma sent_updateAssistant:
  assumes "req \<in> set (fst (updateAssistant r w s u))"
  shows "authorization req = Some (''Bearer '' @ tmpl (apiKey s))"
  using assms
  by (auto simp: updateAssistant_def fst_makeRequest authorization_prepared authorization_bearer
      split: if_splits)

lemma sent_createWebCall:
  assumes "req \<in> set (fst (createWebCall r w s a t))"
  shows "truthy_str (privateKey s) \<and>
         req = prepared r (web_options r s) (Some (web_callData r s a t))"
proof -
  from assms have k: "truthy_str (privateKey s)"
    by (auto simp: createWebCall_def split: if_splits)
  with assms have "req \<in> set (fst (makeRequest r w (web_options r s) (Some (web_callData r s a t))))"
    by (auto simp: createWebCall_def split: if_splits prod.splits sum.splits)
  with k show ?thesis by (simp add: fst_makeRequest)
qed

lemma apiKey_VapiService: "apiKey (VapiService r e) = privateKey (VapiService r e)"
  by (simp add: VapiService_def initialize_def Let_def)

text \<open>
  C2, as amended.  For a service whose \<^verbatim>\<open>apiKey\<close> is its private key (every constructed
  service): each request sent by a phone call, by listing, reading or ending calls and by
  reading or updating the assistant carries the private key in its \<^verbatim>\<open>Authorization\<close>
  header.  A web call is attempted only if the private key is present; in \<open>Server_js\<close> and
  \<open>Part_001\<close> its request carries the public key, its only other header is the content
  type, and its payload is the assistant id alone; in \<open>Part_002\<close> its request carries the
  private key.
\<close>

theorem key_selection:
  assumes "apiKey s = privateKey s"
  shows "(\<forall>req \<in> set (fst (makeCall r w s p a)).
            authorization req = Some (''Bearer '' @ tmpl (privateKey s)))
       \<and> (\<forall>req \<in> set (fst (getCalls r w s l)).
            authorization req = Some (''Bearer '' @ tmpl (privateKey s)))
       \<and> (\<forall>req \<in> set (fst (getCall r w s c)).
            authorization req = Some (''Bearer '' @ tmpl (privateKey s)))
       \<and> (\<forall>req \<in> set (fst (endCall r w s c)).
            authorization req = Some (''Bearer '' @ tmpl (privateKey s)))
       \<and> (\<forall>req \<in> set (fst (getAssistant r w s)).
            authorization req = Some (''Bearer '' @ tmpl (privateKey s)))
       \<and> (\<forall>req \<in> set (fst (updateAssistant r w s u)).
            authorization req = Some (''Bearer '' @ tmpl (privateKey s)))
       \<and> (\<forall>req \<in> set (fst (createWebCall r w s a t)).
            truthy_str (privateKey s)
            \<and> (if r = Part_002
                then authorization req = Some (''Bearer '' @ tmpl (privateKey s))
                else headers req = [(''Authorization'', ''Bearer '' @ tmpl (publicKey s)),
                                    (''Content-Type'', ''application/json'')]
                     \<and> payload req
                         = Some (JObj (obj [(''assistantId'',
                                             or_else a (str_json (assistantId s)))]))))"
proof -
  have web: "truthy_str (privateKey s)
            \<and> (if r = Part_002
                then authorization req = Some (''Bearer '' @ tmpl (privateKey s))
                else headers req = [(''Authorization'', ''Bearer '' @ tmpl (publicKey s)),
                                    (''Content-Type'', ''application/json'')]
                     \<and> payload req
                         = Some (JObj (obj [(''assistantId'',
                                             or_else a (str_json (assistantId s)))])))"
    if "req \<in> set (fst (createWebCall r w s a t))" for req
  proof -
    from that have k: "truthy_str (privateKey s)"
      and req: "req = prepared r (web_options r s) (Some (web_callData r s a t))"
      using sent_createWebCall by blast+
    show ?thesis
    proof (cases "r = Part_002")
      case True
      then show ?thesis
        using k req by (simp add: authorization_prepared web_options_def)
    next
      case False
      then show ?thesis
        using k req
        by (simp add: headers_prepared payload_prepared web_options_def web_callData_def
            bearer_headers_def truthy_opt_def)
    qed
  qed
  show ?thesis
  proof (intro conjI ballI)
    fix req assume "req \<in> set (fst (makeCall r w s p a))"
    then show "authorization req = Some (''Bearer '' @ tmpl (privateKey s))"
      using sent_makeCall assms by simp
  next
    fix req assume "req \<in> set (fst (getCalls r w s l))"
    then show "authorization req = Some (''Bearer '' @ tmpl (privateKey s))"
      using sent_getCalls assms by simp
  next
    fix req assume "req \<in> set (fst (getCall r w s c))"
    then show "authorization req = Some (''Bearer '' @ tmpl (privateKey s))"
      using sent_getCall by simp
  next
    fix req assume "req \<in> set (fst (endCall r w s c))"
    then show "authorization req = Some (''Bearer '' @ tmpl (privateKey s))"
      using sent_endCall assms by simp
  next
    fix req assume "req \<in> set (fst (getAssistant r w s))"
    then show "authorization req = Some (''Bearer '' @ tmpl (privateKey s))"
      using sent_getAssistant assms by simp
  next
    fix req assume "req \<in> set (fst (updateAssistant r w s u))"
    then show "authorization req = Some (''Bearer '' @ tmpl (privateKey s))"
      using sent_updateAssistant assms by simp
  next
    fix req assume "req \<in> set (fst (createWebCall r w s a t))"
    then show "truthy_str (privateKey s)" using web by blast
  next
    fix req assume "req \<in> set (fst (createWebCall r w s a t))"
    then show "if r = Part_002
                then authorization req = Some (''Bearer '' @ tmpl (privateKey s))
                else headers req = [(''Authorization'', ''Bearer '' @ tmpl (publicKey s)),
                                    (''Content-Type'', ''application/json'')]
                     \<and> payload req
                         = Some (JObj (obj [(''assistantId'',
                                             or_else a (str_json (assistantId s)))]))"
      using web by blast
  qed
qed

theorem key_selection_witness:
  "apiKey (VapiService Part_001 full_env) = privateKey (VapiService Part_001 full_env)
   \<and> map authorization (fst (makeCall Part_001 (world_replying 201 sample_call_text (Some sample_call))
         (VapiService Part_001 full_env) (Some (JStr ''+15551234567'')) None))
       = [Some ''Bearer sk_private'']
   \<and> map headers (fst (createWebCall Part_001 (world_replying 201 sample_call_text (Some sample_call))
         (VapiService Part_001 full_env) None None))
       = [bearer_headers (Some ''pk_public'')]"
  using key_selection [of "VapiService Part_001 full_env" Part_001
      "world_replying 201 sample_call_text (Some sample_call)" "Some (JStr ''+15551234567'')" None
      None None None None]
  by (simp add: makeCall_def createWebCall_def value_defs transport_defs service_defs
      phone_defs web_defs sample_defs)

text \<open>
  The web call of \<open>Part_002\<close> puts the private key, not the public one, into the
  \<^verbatim>\<open>Authorization\<close> header.
\<close>

theorem web_call_private_key_counterexample:
  "map authorization (fst (createWebCall Part_002 (world_replying 201 sample_call_text (Some sample_call))
       (VapiService Part_002 full_env) None None))
     = [Some ''Bearer sk_private'']
   \<and> privateKey (VapiService Part_002 full_env) = Some ''sk_private''
   \<and> publicKey (VapiService Part_002 full_env) = Some ''pk_public''"
  by (simp add: createWebCall_def value_defs transport_defs service_defs web_defs sample_defs)

section \<open>Operations on an uninitialized gateway\<close>

text \<open>
  C4, as amended.  In \<open>Part_001\<close> and \<open>Part_002\<close>, each of \<^verbatim>\<open>getAssistant\<close>, \<^verbatim>\<open>makeCall\<close>,
  \<^verbatim>\<open>createWebCall\<close>, \<^verbatim>\<open>getCalls\<close>, \<^verbatim>\<open>getCall\<close>, \<^verbatim>\<open>endCall\<close> and \<^verbatim>\<open>updateAssistant\<close> on an
  uninitialized gateway fails with the not-initialized error and sends no request.  In
  every revision an operation sends no request when the credential it checks is missing:
  the assistant id for \<^verbatim>\<open>getAssistant\<close> and \<^verbatim>\<open>updateAssistant\<close>, the API key for \<^verbatim>\<open>makeCall\<close>,
  \<^verbatim>\<open>getCalls\<close> and \<^verbatim>\<open>endCall\<close>, the private key for \<^verbatim>\<open>createWebCall\<close> and \<^verbatim>\<open>getCall\<close>.
\<close>

theorem uninitialized_gateway_fails_fast:
  "(r \<noteq> Server_js \<and> \<not> initialized s \<longrightarrow>
      getAssistant r w s = ([], Inl NotInitialized)
      \<and> makeCall r w s p a = ([], Inl NotInitialized)
      \<and> createWebCall r w s a t = ([], Inl NotInitialized)
      \<and> getCalls r w s l = ([], Inl NotInitialized)
      \<and> getCall r w s c = ([], Inl NotInitialized)
      \<and> endCall r w s c = ([], Inl NotInitialized)
      \<and> updateAssistant r w s u = ([], Inl NotInitialized))
   \<and> (\<not> truthy_str (assistantId s) \<longrightarrow>
        fst (getAssistant r w s) = [] \<and> fst (updateAssistant r w s u) = [])
   \<and> (\<not> truthy_str (apiKey s) \<longrightarrow>
        fst (makeCall r w s p a) = [] \<and> fst (getCalls r w s l) = []
        \<and> fst (endCall r w s c) = [])
   \<and> (\<not> truthy_str (privateKey s) \<longrightarrow>
        fst (createWebCall r w s a t) = [] \<and> fst (getCall r w s c) = [])"
  by (simp add: getAssistant_def makeCall_def createWebCall_def getCalls_def getCall_def
      endCall_def updateAssistant_def init_guard_def)

theorem uninitialized_gateway_fails_fast_witness:
  "Part_002 \<noteq> Server_js
   \<and> \<not> initialized (VapiService Part_002 env_without_private_key)
   \<and> getAssistant Part_002 (world_replying 200 ''{}'' (Some (JObj [])))
        (VapiService Part_002 env_without_private_key) = ([], Inl NotInitialized)
   \<and> getCalls Part_002 (world_replying 200 ''{}'' (Some (JObj [])))
        (VapiService Part_002 env_without_private_key) None = ([], Inl NotInitialized)
   \<and> \<not> truthy_str (privateKey (VapiService Server_js env_without_private_key))
   \<and> fst (createWebCall Server_js (world_replying 200 ''{}'' (Some (JObj [])))
        (VapiService Server_js env_without_private_key) None None) = []"
  using uninitialized_gateway_fails_fast [of Part_002 "VapiService Part_002 env_without_private_key"
      "world_replying 200 ''{}'' (Some (JObj []))" None None None None None None]
    uninitialized_gateway_fails_fast [of Server_js "VapiService Server_js env_without_private_key"
      "world_replying 200 ''{}'' (Some (JObj []))" None None None None None None]
  by (simp add: value_defs service_defs sample_defs)

text \<open>
  \<open>Server_js\<close> has no initialization check in these operations.  Constructed without a
  private key the gateway is not initialized, and \<^verbatim>\<open>getAssistant\<close> still sends its request;
  so it does on a configured gateway after \<^verbatim>\<open>destroy\<close>.
\<close>

theorem uninitialized_server_js_counterexample:
  "\<not> initialized (VapiService Server_js env_without_private_key)
   \<and> getAssistant Server_js (world_replying 200 ''{}'' (Some (JObj [])))
        (VapiService Server_js env_without_private_key)
     = ([\<lparr> hostname = ''api.vapi.ai'', path = ''/assistant/asst_1'', httpMethod = GET,
           headers = [(''Authorization'', ''Bearer undefined''),
                      (''Content-Type'', ''application/json'')],
           payload = None \<rparr>],
        Inr (JObj []))
   \<and> \<not> initialized (destroy (VapiService Server_js full_env))
   \<and> getAssistant Server_js (world_replying 200 ''{}'' (Some (JObj [])))
        (destroy (VapiService Server_js full_env))
     = ([\<lparr> hostname = ''api.vapi.ai'', path = ''/assistant/asst_1'', httpMethod = GET,
           headers = [(''Authorization'', ''Bearer sk_private''),
                      (''Content-Type'', ''application/json'')],
           payload = None \<rparr>],
        Inr (JObj []))"
  by (simp add: getAssistant_def value_defs transport_defs service_defs sample_defs)

section \<open>Transcripts\<close>

text \<open>
  C8.  When \<^verbatim>\<open>getCall\<close> succeeds with a call object that has no \<^verbatim>\<open>transcript\<close> field,
  \<^verbatim>\<open>getCallTranscript\<close> returns \<^verbatim>\<open>null\<close>; when \<^verbatim>\<open>getCall\<close> fails, \<^verbatim>\<open>getCallTranscript\<close>
  fails with the same error, having sent the same requests.
\<close>

theorem getCallTranscript_null_or_propagates:
  "(getCall r w s c = (reqs, Inr (JObj kvs)) \<and> ''transcript'' \<notin> fst ` set kvs
      \<longrightarrow> getCallTranscript r w s c = (reqs, Inr JNull))
   \<and> (getCall r w s c = (reqs', Inl e) \<longrightarrow> getCallTranscript r w s c = (reqs', Inl e))"
proof (intro conjI impI)
  assume a: "getCall r w s c = (reqs, Inr (JObj kvs)) \<and> ''transcript'' \<notin> fst ` set kvs"
  then have "map_of (rev kvs) ''transcript'' = None"
    by (simp add: map_of_eq_None_iff)
  with a show "getCallTranscript r w s c = (reqs, Inr JNull)"
    by (simp add: getCallTranscript_def)
next
  assume "getCall r w s c = (reqs', Inl e)"
  then show "getCallTranscript r w s c = (reqs', Inl e)"
    by (simp add: getCallTranscript_def)
qed

theorem getCallTranscript_null_or_propagates_witness:
  "getCall Server_js (world_replying 200 sample_call_text (Some sample_call)) (VapiService Server_js full_env)
       (Some ''call_1'')
     = ([prepared Server_js \<lparr> hostname = ''api.vapi.ai'', path = ''/call/call_1'',
            httpMethod = GET, headers = bearer_headers (Some ''sk_private''), payload = None \<rparr> None],
        Inr sample_call)
   \<and> getCallTranscript Server_js (world_replying 200 sample_call_text (Some sample_call))
        (VapiService Server_js full_env) (Some ''call_1'')
     = ([prepared Server_js \<lparr> hostname = ''api.vapi.ai'', path = ''/call/call_1'',
            httpMethod = GET, headers = bearer_headers (Some ''sk_private''), payload = None \<rparr> None],
        Inr JNull)
   \<and> getCall Server_js (world_unreachable ''ECONNREFUSED'') (VapiService Server_js full_env)
       (Some ''call_1'')
     = ([prepared Server_js \<lparr> hostname = ''api.vapi.ai'', path = ''/call/call_1'',
            httpMethod = GET, headers = bearer_headers (Some ''sk_private''), payload = None \<rparr> None],
        Inl (RequestError ''ECONNREFUSED''))
   \<and> getCallTranscript Server_js (world_unreachable ''ECONNREFUSED'')
        (VapiService Server_js full_env) (Some ''call_1'')
     = ([prepared Server_js \<lparr> hostname = ''api.vapi.ai'', path = ''/call/call_1'',
            httpMethod = GET, headers = bearer_headers (Some ''sk_private''), payload = None \<rparr> None],
        Inl (RequestError ''ECONNREFUSED''))"
  using getCallTranscript_null_or_propagates
    [of Server_js "world_replying 200 sample_call_text (Some sample_call)" "VapiService Server_js full_env"
        "Some ''call_1''"
        "[prepared Server_js \<lparr> hostname = ''api.vapi.ai'', path = ''/call/call_1'',
            httpMethod = GET, headers = bearer_headers (Some ''sk_private''), payload = None \<rparr> None]"
        "[(''id'', JStr ''call_1''),
           (''transport'', JObj [(''provider'', JStr ''vapi.websocket''),
                                 (''websocketCallUrl'', JStr ''wss://api.vapi.ai/call_1'')])]"]
    getCallTranscript_null_or_propagates
    [of Server_js "world_unreachable ''ECONNREFUSED''" "VapiService Server_js full_env"
        "Some ''call_1''" _ _
        "[prepared Server_js \<lparr> hostname = ''api.vapi.ai'', path = ''/call/call_1'',
            httpMethod = GET, headers = bearer_headers (Some ''sk_private''), payload = None \<rparr> None]"
        "RequestError ''ECONNREFUSED''"]
  by (simp add: getCall_def value_defs transport_defs service_defs sample_defs)


section \<open>Phone-number validation\<close>

lemma phoneRegex_test_iff: "phoneRegex_test x \<longleftrightarrow> x \<in> phone_pattern"
proof
  assume t: "phoneRegex_test x"
  then obtain d ds where dp: "drop_plus x = d # ds" and d: "is_nonzero_digit d"
    and len: "8 \<le> length ds" "length ds \<le> 14" and ds: "list_all is_digit ds"
    by (auto simp: phoneRegex_test_def split: list.splits)
  from dp have "x = d # ds \<or> x = ''+'' @ d # ds"
    by (auto simp: drop_plus_def split: list.splits if_splits)
  moreover have "set ds \<subseteq> set ''0123456789''"
    using ds unfolding list_all_iff is_digit_def by blast
  moreover have "d \<in> set ''123456789''" using d by (simp only: is_nonzero_digit_def)
  ultimately show "x \<in> phone_pattern"
    unfolding phone_pattern_def using len by blast
next
  assume "x \<in> phone_pattern"
  then obtain sign d ds where x: "x = sign @ d # ds" and sign: "sign = [] \<or> sign = ''+''"
    and d: "d \<in> set ''123456789''" and ds: "set ds \<subseteq> set ''0123456789''"
    and len: "8 \<le> length ds" "length ds \<le> 14"
    unfolding phone_pattern_def by blast
  from d have "d \<noteq> CHR ''+''" by auto
  with x sign have "drop_plus x = d # ds"
    by (auto simp: drop_plus_def)
  moreover have "list_all is_digit ds"
    using ds unfolding list_all_iff is_digit_def by blast
  ultimately show "phoneRegex_test x"
    using d len by (simp add: phoneRegex_test_def is_nonzero_digit_def)
qed

lemma with_plus_prefix:
  "with_plus x = (if take 1 x = ''+'' then x else ''+'' @ x)"
  by (cases x) (simp_all add: with_plus_def)

lemma customer_number:
  "getProp (phone_callData s x a) ''customer'' = Some (JObj [(''number'', JStr (with_plus x))])"
  by (cases "or_else a (str_json (assistantId s))") (simp_all add: phone_callData_def)

lemma makeCall_accepts:
  assumes "\<not> init_guard r s" "truthy_str (apiKey s)" "phoneRegex_test (strip_separators p)"
  shows "fst (makeCall r w s (Some (JStr p)) a)
         = [\<lparr> hostname = ''api.vapi.ai'',
              path = ''/call/phone'', httpMethod = POST,
              headers = bearer_headers (apiKey s),
              payload = Some (phone_callData s (strip_separators p) a) \<rparr>]"
proof -
  have "p \<noteq> []" using assms(3)
    by (auto simp: strip_separators_def phoneRegex_test_def drop_plus_def)
  then have "truthy_opt (Some (JStr p))" by (simp add: truthy_opt_def)
  moreover have "truthy_opt (Some (phone_callData s (strip_separators p) a))"
    by (simp add: truthy_opt_def phone_callData_def)
  ultimately show ?thesis
    using assms
    by (auto simp: makeCall_def Let_def prepared_def baseUrl_def split: prod.splits sum.splits
        dest!: makeRequest_sent)
qed

lemma makeCall_rejects:
  assumes "\<not> init_guard r s" "truthy_str (apiKey s)" "\<not> phoneRegex_test (strip_separators p)"
  shows "makeCall r w s (Some (JStr p)) a
         = ([], Inl (if p = [] then PhoneNumberRequired else InvalidPhoneFormat))"
  using assms by (simp add: makeCall_def truthy_opt_def)

text \<open>
  C3, as amended.  On a gateway that passes the initialization and key checks, \<^verbatim>\<open>makeCall\<close>
  strips whitespace, hyphens and parentheses from the input string and tests the result
  against \<^verbatim>\<open>^\+?[1-9]\d{8,14}$\<close>.  On a match it sends one request to \<^verbatim>\<open>/call/phone\<close> whose
  customer number is the stripped string, with a plus sign put in front unless it starts
  with one.  On a mismatch it sends nothing and fails: with the format error for a
  non-empty input, with the missing-number error for the empty string.  The input
  \<^verbatim>\<open>(555) 123-4567\<close> is stripped to \<^verbatim>\<open>5551234567\<close>, which matches, and is sent as
  \<^verbatim>\<open>+5551234567\<close>.
\<close>

theorem makeCall_phone_validation:
  assumes "\<not> init_guard r s" and "truthy_str (apiKey s)"
  shows "(phoneRegex_test (strip_separators p) \<longleftrightarrow> strip_separators p \<in> phone_pattern)
       \<and> (strip_separators p \<in> phone_pattern \<longrightarrow>
            fst (makeCall r w s (Some (JStr p)) a)
              = [\<lparr> hostname = ''api.vapi.ai'',
                   path = ''/call/phone'', httpMethod = POST,
                   headers = bearer_headers (apiKey s),
                   payload = Some (phone_callData s (strip_separators p) a) \<rparr>]
            \<and> getProp (phone_callData s (strip_separators p) a) ''customer''
                = Some (JObj [(''number'', JStr (with_plus (strip_separators p)))])
            \<and> with_plus (strip_separators p)
                = (if take 1 (strip_separators p) = ''+'' then strip_separators p
                   else ''+'' @ strip_separators p))
       \<and> (strip_separators p \<notin> phone_pattern \<longrightarrow>
            makeCall r w s (Some (JStr p)) a
              = ([], Inl (if p = [] then PhoneNumberRequired else InvalidPhoneFormat)))
       \<and> strip_separators ''(555) 123-4567'' = ''5551234567''
       \<and> ''5551234567'' \<in> phone_pattern
       \<and> with_plus ''5551234567'' = ''+5551234567''"
proof -
  have ex: "strip_separators ''(555) 123-4567'' = ''5551234567''"
    by (simp add: strip_separators_def is_separator_def is_space_def)
  have "phoneRegex_test ''5551234567''"
    by (simp add: phoneRegex_test_def drop_plus_def is_nonzero_digit_def is_digit_def)
  then have inpat: "''5551234567'' \<in> phone_pattern"
    by (simp only: phoneRegex_test_iff)
  have wp: "with_plus ''5551234567'' = ''+5551234567''"
    by (simp add: with_plus_def)
  have acc: "fst (makeCall r w s (Some (JStr p)) a)
              = [\<lparr> hostname = ''api.vapi.ai'',
                   path = ''/call/phone'', httpMethod = POST,
                   headers = bearer_headers (apiKey s),
                   payload = Some (phone_callData s (strip_separators p) a) \<rparr>]"
    if "strip_separators p \<in> phone_pattern"
    using that makeCall_accepts [OF assms, of p w a] by (simp only: phoneRegex_test_iff simp_thms)
  have rej: "makeCall r w s (Some (JStr p)) a
              = ([], Inl (if p = [] then PhoneNumberRequired else InvalidPhoneFormat))"
    if "strip_separators p \<notin> phone_pattern"
    using that makeCall_rejects [OF assms, of p w a] by (simp only: phoneRegex_test_iff simp_thms)
  show ?thesis
    by (simp add: phoneRegex_test_iff acc rej customer_number with_plus_prefix ex inpat)
qed

theorem makeCall_phone_validation_witness:
  "\<not> init_guard Server_js (VapiService Server_js full_env)
   \<and> truthy_str (apiKey (VapiService Server_js full_env))
   \<and> strip_separators ''(555) 123-4567'' \<in> phone_pattern
   \<and> fst (makeCall Server_js (world_replying 201 sample_call_text (Some sample_call))
         (VapiService Server_js full_env) (Some (JStr ''(555) 123-4567'')) None)
       = [\<lparr> hostname = ''api.vapi.ai'', path = ''/call/phone'', httpMethod = POST,
             headers = [(''Authorization'', ''Bearer sk_private''),
                        (''Content-Type'', ''application/json'')],
             payload = Some (JObj [(''assistantId'', JStr ''asst_1''),
                                   (''phoneNumberId'', JNull),
                                   (''customer'', JObj [(''number'', JStr ''+5551234567'')])]) \<rparr>]
   \<and> strip_separators ''555-1234'' \<notin> phone_pattern
   \<and> makeCall Server_js (world_replying 201 sample_call_text (Some sample_call))
         (VapiService Server_js full_env) (Some (JStr ''555-1234'')) None
       = ([], Inl InvalidPhoneFormat)"
  using makeCall_phone_validation [of Server_js "VapiService Server_js full_env" "''(555) 123-4567''"
      "world_replying 201 sample_call_text (Some sample_call)" None]
    makeCall_phone_validation [of Server_js "VapiService Server_js full_env" "''555-1234''"
      "world_replying 201 sample_call_text (Some sample_call)" None]
  by (simp add: value_defs service_defs phone_defs sample_defs)

text \<open>
  The empty string does not match the pattern, and it is rejected by the check
  \<^verbatim>\<open>if (!phoneNumber)\<close> with \<^verbatim>\<open>Phone number is required\<close>, not with the format error.
\<close>

theorem makeCall_empty_number_counterexample:
  "\<not> init_guard Part_002 (VapiService Part_002 full_env)
   \<and> truthy_str (apiKey (VapiService Part_002 full_env))
   \<and> \<not> phoneRegex_test (strip_separators [])
   \<and> makeCall Part_002 (world_replying 201 sample_call_text (Some sample_call))
         (VapiService Part_002 full_env) (Some (JStr [])) None
       = ([], Inl PhoneNumberRequired)
   \<and> PhoneNumberRequired \<noteq> InvalidPhoneFormat"
  by (simp add: makeCall_def value_defs service_defs phone_defs sample_defs)

section \<open>Health check\<close>

text \<open>
  C5, as amended.  \<^verbatim>\<open>healthCheck\<close> always resolves to a status.  On an uninitialized
  gateway it sends no request and returns \<^verbatim>\<open>not_configured\<close> in \<open>Part_001\<close> and \<open>Part_002\<close>,
  \<^verbatim>\<open>initializing\<close> in \<open>Server_js\<close>.  On an initialized gateway it performs \<^verbatim>\<open>getAssistant\<close>
  and nothing else; it returns \<^verbatim>\<open>healthy\<close> with the assistant id and name exactly when
  \<^verbatim>\<open>getAssistant\<close> succeeds, and \<^verbatim>\<open>error\<close> with the failure when it fails.
\<close>

theorem healthCheck_total:
  "(\<not> initialized s \<longrightarrow>
      healthCheck r w s
        = ([], if r = Server_js then Initializing
               else Not_configured ''Vapi service not initialized. Please check environment variables.''))
   \<and> (initialized s \<longrightarrow>
        fst (healthCheck r w s) = fst (getAssistant r w s)
        \<and> (\<forall>assistantData. snd (getAssistant r w s) = Inr assistantData \<longrightarrow>
              snd (healthCheck r w s)
                = Healthy (truthy_str (apiKey s)) (assistantId s) (assistantName assistantData))
        \<and> (\<forall>e. snd (getAssistant r w s) = Inl e \<longrightarrow>
              snd (healthCheck r w s) = Health_error e))
   \<and> (status (snd (healthCheck r w s)) = ''healthy''
        \<longleftrightarrow> initialized s \<and> (\<exists>assistantData. snd (getAssistant r w s) = Inr assistantData))
   \<and> status (snd (healthCheck r w s))
        \<in> {''healthy'', ''error'', ''not_configured'', ''initializing''}"
proof (cases "initialized s")
  case False
  then show ?thesis by (simp add: healthCheck_def)
next
  case True
  show ?thesis
  proof (cases "getAssistant r w s")
    case (Pair reqs res)
    then show ?thesis using True
      by (cases res) (simp_all add: healthCheck_def)
  qed
qed

theorem healthCheck_total_witness:
  "\<not> initialized (VapiService Part_001 env_without_private_key)
   \<and> healthCheck Part_001 (world_unreachable ''ECONNREFUSED'')
        (VapiService Part_001 env_without_private_key)
      = ([], Not_configured ''Vapi service not initialized. Please check environment variables.'')
   \<and> initialized (VapiService Part_001 full_env)
   \<and> snd (getAssistant Part_001 (world_unreachable ''ECONNREFUSED'') (VapiService Part_001 full_env))
      = Inl (RequestError ''ECONNREFUSED'')
   \<and> snd (healthCheck Part_001 (world_unreachable ''ECONNREFUSED'') (VapiService Part_001 full_env))
      = Health_error (RequestError ''ECONNREFUSED'')
   \<and> snd (getAssistant Part_001 (world_replying 200 sample_call_text (Some sample_call))
        (VapiService Part_001 full_env))
      = Inr sample_call
   \<and> snd (healthCheck Part_001 (world_replying 200 sample_call_text (Some sample_call))
        (VapiService Part_001 full_env))
      = Healthy True (Some ''asst_1'') (JStr ''Unknown'')"
  using healthCheck_total [of "VapiService Part_001 env_without_private_key" Part_001
      "world_unreachable ''ECONNREFUSED''"]
    healthCheck_total [of "VapiService Part_001 full_env" Part_001
      "world_unreachable ''ECONNREFUSED''"]
    healthCheck_total [of "VapiService Part_001 full_env" Part_001
      "world_replying 200 sample_call_text (Some sample_call)"]
  by (simp add: getAssistant_def assistantName_def value_defs transport_defs service_defs
      sample_defs)

text \<open>The uninitialized gateway of \<open>Server_js\<close> reports \<^verbatim>\<open>initializing\<close>.\<close>

theorem healthCheck_initializing_counterexample:
  "\<not> initialized (VapiService Server_js env_without_private_key)
   \<and> healthCheck Server_js (world_unreachable ''ECONNREFUSED'')
        (VapiService Server_js env_without_private_key)
      = ([], Initializing)
   \<and> status Initializing = ''initializing''
   \<and> status Initializing \<noteq> ''not_configured''"
  by (simp add: healthCheck_def value_defs service_defs sample_defs)

section \<open>Classification of upstream responses\<close>

text \<open>
  The two failures inside the \<^verbatim>\<open>try\<close> that are not failures of \<^verbatim>\<open>JSON.parse\<close>: on a
  non-2xx status a payload \<^verbatim>\<open>null\<close>, and a truthy message that has no text, are reported
  as parse failures.
\<close>

lemma makeRequest_conversion_failures:
  assumes "upstream w (prepared r options data) = Response code text"
    and "r \<noteq> Part_002 \<or> text \<noteq> []" and "\<not> success_status code"
  shows "JSON_parse w text = Some JNull \<Longrightarrow>
           snd (makeRequest r w options data) = Inl (ParseError NullResponse)"
    and "JSON_parse w text = Some v \<Longrightarrow> getProp v ''message'' = Some m \<Longrightarrow> truthy m \<Longrightarrow>
           toText m = None \<Longrightarrow>
           snd (makeRequest r w options data) = Inl (ParseError MessageConversion)"
  using assms
  by (auto simp: snd_makeRequest_response on_end_def parse_and_classify_def)

text \<open>
  C6, as amended.  When the upstream answers with a status and a body:
  in \<open>Part_002\<close> an empty body gives the empty object on a 2xx status and a failure carrying
  the status code otherwise.  In every other case the body goes through \<^verbatim>\<open>JSON.parse\<close>
  first (in \<open>Server_js\<close> and \<open>Part_001\<close> the empty body too): a body that parses gives the
  parsed payload on a 2xx status; on any other status, when the payload is not \<^verbatim>\<open>null\<close>, it
  gives a failure carrying the status code and the text of the upstream \<^verbatim>\<open>message\<close> when
  that is truthy and has a text, or the raw body when the message is missing or falsy; a
  body that does not parse gives the parse failure whatever the status.
\<close>

theorem makeRequest_classification:
  assumes "upstream w (prepared r options data) = Response code text"
  shows "(r = Part_002 \<and> text = [] \<and> success_status code \<longrightarrow>
            snd (makeRequest r w options data) = Inr (JObj []))
       \<and> (r = Part_002 \<and> text = [] \<and> \<not> success_status code \<longrightarrow>
            snd (makeRequest r w options data) = Inl (ApiError code NoDetail))
       \<and> ((r \<noteq> Part_002 \<or> text \<noteq> []) \<and> JSON_parse w text = Some v \<and> success_status code \<longrightarrow>
            snd (makeRequest r w options data) = Inr v)
       \<and> ((r \<noteq> Part_002 \<or> text \<noteq> []) \<and> JSON_parse w text = Some v \<and> v \<noteq> JNull
            \<and> \<not> success_status code \<and> getProp v ''message'' = Some m \<and> truthy m
            \<and> toText m = Some mt \<longrightarrow>
            snd (makeRequest r w options data) = Inl (ApiError code (UpstreamMessage mt)))
       \<and> ((r \<noteq> Part_002 \<or> text \<noteq> []) \<and> JSON_parse w text = Some v \<and> v \<noteq> JNull
            \<and> \<not> success_status code \<and> \<not> truthy_opt (getProp v ''message'') \<longrightarrow>
            snd (makeRequest r w options data) = Inl (ApiError code (RawBody text)))
       \<and> ((r \<noteq> Part_002 \<or> text \<noteq> []) \<and> JSON_parse w text = None \<longrightarrow>
            snd (makeRequest r w options data) = Inl (ParseError SyntaxError))"
proof -
  have m: "snd (makeRequest r w options data) = on_end r w code text"
    using assms by (rule snd_makeRequest_response)
  show ?thesis
    unfolding m
    by (auto simp: on_end_def parse_and_classify_def truthy_opt_def split: option.splits)
qed

theorem makeRequest_classification_witness:
  "upstream (world_replying 204 [] None)
       (prepared Part_002 (web_options Part_002 (VapiService Part_002 full_env)) None)
     = Response 204 []
   \<and> success_status 204
   \<and> snd (makeRequest Part_002 (world_replying 204 [] None)
            (web_options Part_002 (VapiService Part_002 full_env)) None) = Inr (JObj [])
   \<and> \<not> success_status 500
   \<and> snd (makeRequest Part_002 (world_replying 500 [] None)
            (web_options Part_002 (VapiService Part_002 full_env)) None)
       = Inl (ApiError 500 NoDetail)
   \<and> JSON_parse (world_replying 200 sample_call_text (Some sample_call)) sample_call_text
       = Some sample_call
   \<and> snd (makeRequest Part_002 (world_replying 200 sample_call_text (Some sample_call))
            (web_options Part_002 (VapiService Part_002 full_env)) None) = Inr sample_call
   \<and> getProp not_found ''message'' = Some (JStr ''Not Found'')
   \<and> toText (JStr ''Not Found'') = Some ''Not Found''
   \<and> snd (makeRequest Server_js (world_replying 404 not_found_text (Some not_found))
            (web_options Server_js (VapiService Server_js full_env)) None)
       = Inl (ApiError 404 (UpstreamMessage ''Not Found''))
   \<and> \<not> truthy_opt (getProp (JObj []) ''message'')
   \<and> snd (makeRequest Server_js (world_replying 500 ''{}'' (Some (JObj [])))
            (web_options Server_js (VapiService Server_js full_env)) None)
       = Inl (ApiError 500 (RawBody ''{}''))
   \<and> JSON_parse (world_replying 200 ''<html>'' None) ''<html>'' = None
   \<and> snd (makeRequest Part_001 (world_replying 200 ''<html>'' None)
            (web_options Part_001 (VapiService Part_001 full_env)) None)
       = Inl (ParseError SyntaxError)"
proof -
  have empty_ok: "snd (makeRequest Part_002 (world_replying 204 [] None)
            (web_options Part_002 (VapiService Part_002 full_env)) None) = Inr (JObj [])"
    using makeRequest_classification [of "world_replying 204 [] None" Part_002
        "web_options Part_002 (VapiService Part_002 full_env)" None 204 "[]" JNull JNull "[]"]
    by (simp add: success_status_def world_replying_def)
  have empty_failed: "snd (makeRequest Part_002 (world_replying 500 [] None)
            (web_options Part_002 (VapiService Part_002 full_env)) None)
       = Inl (ApiError 500 NoDetail)"
    using makeRequest_classification [of "world_replying 500 [] None" Part_002
        "web_options Part_002 (VapiService Part_002 full_env)" None 500 "[]" JNull JNull "[]"]
    by (simp add: success_status_def world_replying_def)
  have parsed: "snd (makeRequest Part_002 (world_replying 200 sample_call_text (Some sample_call))
            (web_options Part_002 (VapiService Part_002 full_env)) None) = Inr sample_call"
    using makeRequest_classification
      [of "world_replying 200 sample_call_text (Some sample_call)" Part_002
        "web_options Part_002 (VapiService Part_002 full_env)" None 200 sample_call_text
        sample_call JNull "[]"]
    by (simp add: success_status_def world_replying_def)
  have message: "snd (makeRequest Server_js (world_replying 404 not_found_text (Some not_found))
            (web_options Server_js (VapiService Server_js full_env)) None)
       = Inl (ApiError 404 (UpstreamMessage ''Not Found''))"
    using makeRequest_classification
      [of "world_replying 404 not_found_text (Some not_found)" Server_js
        "web_options Server_js (VapiService Server_js full_env)" None 404 not_found_text
        not_found "JStr ''Not Found''" "''Not Found''"]
    by (simp add: success_status_def world_replying_def not_found_def)
  have raw: "snd (makeRequest Server_js (world_replying 500 ''{}'' (Some (JObj [])))
            (web_options Server_js (VapiService Server_js full_env)) None)
       = Inl (ApiError 500 (RawBody ''{}''))"
    using makeRequest_classification
      [of "world_replying 500 ''{}'' (Some (JObj []))" Server_js
        "web_options Server_js (VapiService Server_js full_env)" None 500 "''{}''" "JObj []"
        JNull "[]"]
    by (simp add: success_status_def truthy_opt_def world_replying_def)
  have unparsed: "snd (makeRequest Part_001 (world_replying 200 ''<html>'' None)
            (web_options Part_001 (VapiService Part_001 full_env)) None)
       = Inl (ParseError SyntaxError)"
    using makeRequest_classification [of "world_replying 200 ''<html>'' None" Part_001
        "web_options Part_001 (VapiService Part_001 full_env)" None 200 "''<html>''" JNull JNull
        "[]"]
    by (simp add: success_status_def world_replying_def)
  have "getProp not_found ''message'' = Some (JStr ''Not Found'')"
    by (simp add: not_found_def)
  then show ?thesis
    by (simp add: empty_ok empty_failed parsed message raw unparsed)
       (simp add: success_status_def truthy_opt_def world_replying_def)
qed

text \<open>
  In \<open>Server_js\<close> an empty body on a 2xx status is a parse failure (\<^verbatim>\<open>JSON.parse('')\<close>
  throws), and in every revision a body that does not parse on a non-2xx status gives the
  parse failure, which does not carry the status code.
\<close>

theorem makeRequest_classification_counterexample:
  "getAssistant Server_js (world_replying 200 [] None) (VapiService Server_js full_env)
     = ([\<lparr> hostname = ''api.vapi.ai'', path = ''/assistant/asst_1'', httpMethod = GET,
           headers = [(''Authorization'', ''Bearer sk_private''),
                      (''Content-Type'', ''application/json'')],
           payload = None \<rparr>],
        Inl (ParseError SyntaxError))
   \<and> getAssistant Part_002 (world_replying 502 ''<html>Bad Gateway</html>'' None)
        (VapiService Part_002 full_env)
     = ([\<lparr> hostname = ''api.vapi.ai'', path = ''/assistant/asst_1'', httpMethod = GET,
           headers = [(''Authorization'', ''Bearer sk_private''),
                      (''Content-Type'', ''application/json'')],
           payload = None \<rparr>],
        Inl (ParseError SyntaxError))"
  by (simp add: getAssistant_def value_defs transport_defs service_defs sample_defs)

lemma unconvertible_has_no_text: "toText unconvertible = None"
  by (simp add: unconvertible_def)



section \<open>Webhook handler\<close>

lemma webhook_no_body:
  "snd (webhook c None) = \<lparr> statusCode = 200, body = ErrorOf (TypeError ''req.body'') \<rparr>"
  "snd (webhook c (Some JNull)) = \<lparr> statusCode = 200, body = ErrorOf (TypeError ''req.body'') \<rparr>"
  by (simp_all add: webhook_def)

lemma webhook_rejected:
  "b \<noteq> JNull \<Longrightarrow> \<not> (truthy_opt (getProp b ''type'') \<and> truthy_opt (getProp b ''data'')) \<Longrightarrow>
   snd (webhook c (Some b))
     = \<lparr> statusCode = 400, body = ErrorText ''Invalid webhook payload'' \<rparr>"
  by (cases b; cases "getProp b ''type''"; cases "getProp b ''data''")
     (auto simp: webhook_def truthy_opt_def)

lemma webhook_processed:
  assumes "getProp b ''type'' = Some ty" "truthy ty" "getProp b ''data'' = Some d" "truthy d"
  shows "snd (webhook c (Some b))
           = \<lparr> statusCode = 200,
               body = (case snd (dispatch c ty d) of None \<Rightarrow> Ack | Some e \<Rightarrow> ErrorOf e) \<rparr>"
proof -
  from assms(1) obtain kvs where b: "b = JObj kvs" by (cases b) simp_all
  obtain logged err where d: "dispatch c ty d = (logged, err)" by (cases "dispatch c ty d")
  show ?thesis
    using assms unfolding b
    by (cases err) (simp_all add: webhook_def d)
qed

lemma dispatch_without_callId:
  "getProp d ''callId'' = None \<Longrightarrow> snd (dispatch c ty d) = None"
  by (simp add: dispatch_def)

lemma dispatch_unrecognized:
  "ty \<notin> set recognized_types \<Longrightarrow> snd (dispatch c (JStr ty) d) = None"
  by (auto simp: dispatch_def recognized_types_def)

lemma webhook_status_200_or_400:
  "statusCode (snd (webhook c reqBody)) = 200 \<or> statusCode (snd (webhook c reqBody)) = 400"
proof (cases reqBody)
  case None
  then show ?thesis by (simp add: webhook_no_body)
next
  case (Some b)
  show ?thesis
  proof (cases "b = JNull")
    case True
    with Some show ?thesis by (simp add: webhook_no_body)
  next
    case False
    show ?thesis
    proof (cases "truthy_opt (getProp b ''type'') \<and> truthy_opt (getProp b ''data'')")
      case True
      then obtain ty d where "getProp b ''type'' = Some ty" "truthy ty"
        "getProp b ''data'' = Some d" "truthy d"
        by (auto simp: truthy_opt_def split: option.splits)
      then show ?thesis using Some by (simp add: webhook_processed)
    next
      case False
      with \<open>b \<noteq> JNull\<close> Some show ?thesis by (simp add: webhook_rejected)
    qed
  qed
qed

text \<open>
  C7, as amended.  Once it is invoked, the webhook handler answers 200 for every payload
  whose \<^verbatim>\<open>type\<close> and \<^verbatim>\<open>data\<close> are both truthy, with \<^verbatim>\<open>{ success: true }\<close> when the processing
  of the event returns and with the error in the body when it raises; it answers 400 for
  every other payload that is not \<^verbatim>\<open>null\<close>, that is, when \<^verbatim>\<open>type\<close> or \<^verbatim>\<open>data\<close> is missing or
  falsy.  Each of the six recognized types, sent with data that have no call id, and
  every unrecognized type with any truthy data is answered with 200 and
  \<^verbatim>\<open>{ success: true }\<close>.  A request body that is \<^verbatim>\<open>null\<close> or \<^verbatim>\<open>undefined\<close> raises and is
  answered with 200 and the error.  The handler answers nothing but 200 and 400.
\<close>

theorem webhook_acknowledges:
  "(truthy_opt (getProp b ''type'') \<and> truthy_opt (getProp b ''data'') \<longrightarrow>
      statusCode (snd (webhook c (Some b))) = 200)
   \<and> (getProp b ''type'' = Some ty \<and> truthy ty \<and> getProp b ''data'' = Some d \<and> truthy d \<longrightarrow>
      snd (webhook c (Some b))
        = \<lparr> statusCode = 200,
            body = (case snd (dispatch c ty d) of None \<Rightarrow> Ack | Some e \<Rightarrow> ErrorOf e) \<rparr>)
   \<and> (b \<noteq> JNull \<and> \<not> (truthy_opt (getProp b ''type'') \<and> truthy_opt (getProp b ''data'')) \<longrightarrow>
      snd (webhook c (Some b))
        = \<lparr> statusCode = 400, body = ErrorText ''Invalid webhook payload'' \<rparr>)
   \<and> snd (webhook c None) = \<lparr> statusCode = 200, body = ErrorOf (TypeError ''req.body'') \<rparr>
   \<and> snd (webhook c (Some JNull)) = \<lparr> statusCode = 200, body = ErrorOf (TypeError ''req.body'') \<rparr>
   \<and> (\<forall>name \<in> set recognized_types.
        getProp d' ''callId'' = None \<and> truthy d' \<longrightarrow>
        snd (webhook c (Some (JObj [(''type'', JStr name), (''data'', d')])))
          = \<lparr> statusCode = 200, body = Ack \<rparr>)
   \<and> (other \<notin> set recognized_types \<and> other \<noteq> [] \<and> truthy d' \<longrightarrow>
        snd (webhook c (Some (JObj [(''type'', JStr other), (''data'', d')])))
          = \<lparr> statusCode = 200, body = Ack \<rparr>)
   \<and> (statusCode (snd (webhook c reqBody)) = 200 \<or> statusCode (snd (webhook c reqBody)) = 400)"
proof -
  have ok: "statusCode (snd (webhook c (Some b))) = 200"
    if "truthy_opt (getProp b ''type'') \<and> truthy_opt (getProp b ''data'')"
  proof -
    from that obtain ty d where "getProp b ''type'' = Some ty" "truthy ty"
      "getProp b ''data'' = Some d" "truthy d"
      by (auto simp: truthy_opt_def split: option.splits)
    then show ?thesis by (simp add: webhook_processed)
  qed
  have processed: "snd (webhook c (Some b))
        = \<lparr> statusCode = 200,
            body = (case snd (dispatch c ty d) of None \<Rightarrow> Ack | Some e \<Rightarrow> ErrorOf e) \<rparr>"
    if "getProp b ''type'' = Some ty \<and> truthy ty \<and> getProp b ''data'' = Some d \<and> truthy d"
    using that by (simp add: webhook_processed)
  have rej: "snd (webhook c (Some b))
        = \<lparr> statusCode = 400, body = ErrorText ''Invalid webhook payload'' \<rparr>"
    if "b \<noteq> JNull \<and> \<not> (truthy_opt (getProp b ''type'') \<and> truthy_opt (getProp b ''data''))"
    using that by (simp add: webhook_rejected)
  have six: "\<forall>name \<in> set recognized_types.
        getProp d' ''callId'' = None \<and> truthy d' \<longrightarrow>
        snd (webhook c (Some (JObj [(''type'', JStr name), (''data'', d')])))
          = \<lparr> statusCode = 200, body = Ack \<rparr>"
  proof (intro ballI impI)
    fix name assume n: "name \<in> set recognized_types"
      and d: "getProp d' ''callId'' = None \<and> truthy d'"
    from n have "name \<noteq> []" by (auto simp: recognized_types_def)
    then have "snd (webhook c (Some (JObj [(''type'', JStr name), (''data'', d')])))
        = \<lparr> statusCode = 200,
            body = (case snd (dispatch c (JStr name) d') of None \<Rightarrow> Ack | Some e \<Rightarrow> ErrorOf e) \<rparr>"
      using d by (intro webhook_processed) simp_all
    then show "snd (webhook c (Some (JObj [(''type'', JStr name), (''data'', d')])))
          = \<lparr> statusCode = 200, body = Ack \<rparr>"
      using d by (simp add: dispatch_without_callId)
  qed
  have unrecognized: "snd (webhook c (Some (JObj [(''type'', JStr other), (''data'', d')])))
          = \<lparr> statusCode = 200, body = Ack \<rparr>"
    if "other \<notin> set recognized_types \<and> other \<noteq> [] \<and> truthy d'"
  proof -
    have "snd (webhook c (Some (JObj [(''type'', JStr other), (''data'', d')])))
        = \<lparr> statusCode = 200,
            body = (case snd (dispatch c (JStr other) d') of None \<Rightarrow> Ack | Some e \<Rightarrow> ErrorOf e) \<rparr>"
      using that by (intro webhook_processed) simp_all
    then show ?thesis using that by (simp add: dispatch_unrecognized)
  qed
  from ok processed rej six unrecognized webhook_no_body [of c] webhook_status_200_or_400 [of c reqBody]
  show ?thesis by blast
qed

theorem webhook_acknowledges_witness:
  "truthy_opt (getProp (JObj [(''type'', JStr ''transcript''), (''data'', JObj [])]) ''type'')
   \<and> truthy_opt (getProp (JObj [(''type'', JStr ''transcript''), (''data'', JObj [])]) ''data'')
   \<and> snd (webhook quiet_console (Some (JObj [(''type'', JStr ''transcript''), (''data'', JObj [])])))
       = \<lparr> statusCode = 200, body = Ack \<rparr>
   \<and> ''anything-else'' \<notin> set recognized_types
   \<and> snd (webhook quiet_console
             (Some (JObj [(''type'', JStr ''anything-else''), (''data'', JObj [])])))
       = \<lparr> statusCode = 200, body = Ack \<rparr>
   \<and> truthy unconvertible
   \<and> snd (dispatch quiet_console (JStr ''status-update'') (JObj [(''callId'', unconvertible)]))
       = Some (TypeError ''data.callId'')
   \<and> snd (webhook quiet_console
             (Some (JObj [(''type'', JStr ''status-update''),
                          (''data'', JObj [(''callId'', unconvertible)])])))
       = \<lparr> statusCode = 200, body = ErrorOf (TypeError ''data.callId'') \<rparr>
   \<and> JObj [(''type'', JStr ''transcript'')] \<noteq> JNull
   \<and> \<not> truthy_opt (getProp (JObj [(''type'', JStr ''transcript'')]) ''data'')
   \<and> snd (webhook quiet_console (Some (JObj [(''type'', JStr ''transcript'')])))
       = \<lparr> statusCode = 400, body = ErrorText ''Invalid webhook payload'' \<rparr>
   \<and> ''call-ended'' \<in> set recognized_types"
proof -
  have plain: "snd (webhook quiet_console (Some (JObj [(''type'', JStr ''transcript''), (''data'', JObj [])])))
       = \<lparr> statusCode = 200, body = Ack \<rparr>"
    using webhook_acknowledges [of "JObj [(''type'', JStr ''transcript''), (''data'', JObj [])]"
        quiet_console "JStr ''transcript''" "JObj []" "JObj []" "''anything-else''" None]
    by (simp add: recognized_types_def truthy_opt_def dispatch_def)
  have other: "snd (webhook quiet_console
             (Some (JObj [(''type'', JStr ''anything-else''), (''data'', JObj [])])))
       = \<lparr> statusCode = 200, body = Ack \<rparr>"
    using webhook_acknowledges [of "JObj [(''type'', JStr ''transcript''), (''data'', JObj [])]"
        quiet_console "JStr ''transcript''" "JObj []" "JObj []" "''anything-else''" None]
    by (simp add: recognized_types_def truthy_opt_def dispatch_def)
  have raised: "snd (webhook quiet_console
             (Some (JObj [(''type'', JStr ''status-update''),
                          (''data'', JObj [(''callId'', unconvertible)])])))
       = \<lparr> statusCode = 200, body = ErrorOf (TypeError ''data.callId'') \<rparr>"
    using webhook_acknowledges
      [of "JObj [(''type'', JStr ''status-update''), (''data'', JObj [(''callId'', unconvertible)])]"
        quiet_console "JStr ''status-update''" "JObj [(''callId'', unconvertible)]" "JObj []"
        "''anything-else''" None]
    by (simp add: recognized_types_def truthy_opt_def dispatch_def unconvertible_def)
  have rejected: "snd (webhook quiet_console (Some (JObj [(''type'', JStr ''transcript'')])))
       = \<lparr> statusCode = 400, body = ErrorText ''Invalid webhook payload'' \<rparr>"
    using webhook_acknowledges [of "JObj [(''type'', JStr ''transcript'')]"
        quiet_console "JStr ''transcript''" "JObj []" "JObj []" "''anything-else''" None]
    by (simp add: recognized_types_def truthy_opt_def dispatch_def)
  show ?thesis
    by (simp add: plain other raised rejected)
       (simp add: truthy_opt_def recognized_types_def dispatch_def unconvertible_def)
qed

text \<open>
  A payload that has both fields, with the empty string as \<^verbatim>\<open>type\<close>, is answered with 400.
\<close>

theorem webhook_falsy_type_counterexample:
  "getProp (JObj [(''type'', JStr []), (''data'', JObj [])]) ''type'' = Some (JStr [])
   \<and> getProp (JObj [(''type'', JStr []), (''data'', JObj [])]) ''data'' = Some (JObj [])
   \<and> webhook quiet_console (Some (JObj [(''type'', JStr []), (''data'', JObj [])]))
       = ([Received (Some (JStr [])) (Some (JObj []))],
          \<lparr> statusCode = 400, body = ErrorText ''Invalid webhook payload'' \<rparr>)"
  by (simp add: webhook_def)

section \<open>The webhook route as mounted\<close>

lemma webhook_handler_truthiness:
  "statusCode (snd (webhook c (Some (JObj kvs))))
     = (if truthy_opt (getProp (JObj kvs) ''type'') \<and> truthy_opt (getProp (JObj kvs) ''data'')
        then 200 else 400)"
proof (cases "truthy_opt (getProp (JObj kvs) ''type'') \<and> truthy_opt (getProp (JObj kvs) ''data'')")
  case True
  then obtain ty d where "getProp (JObj kvs) ''type'' = Some ty" "truthy ty"
    "getProp (JObj kvs) ''data'' = Some d" "truthy d"
    by (auto simp: truthy_opt_def split: option.splits)
  then show ?thesis using True by (simp add: webhook_processed del: getProp.simps)
next
  case False
  then show ?thesis by (simp add: webhook_rejected del: getProp.simps)
qed

lemma webhook_never_reached: "responder method p \<noteq> Some Webhook"
  by (simp add: responder_def mounted_def split: option.splits)

text \<open>
  C10.  The check of the webhook handler is a truthiness test: invoked on an object
  payload it answers 200 exactly when \<^verbatim>\<open>type\<close> and \<^verbatim>\<open>data\<close> are truthy and 400 otherwise
  (\<open>webhook_handler_truthiness\<close>).  The handler is mounted after the catch-all, though: the
  application answers every \<^verbatim>\<open>POST /api/vapi/webhook\<close> with 404 \<^verbatim>\<open>Route not found\<close>, whatever
  the payload, and no request reaches the handler.
\<close>

theorem webhook_route_answers_404:
  "as_mounted c POST [''api'', ''vapi'', ''webhook''] reqBody
     = Some \<lparr> statusCode = 404, body = ErrorText ''Route not found'' \<rparr>"
  by (simp add: as_mounted_def responder_def mounted_def)

theorem webhook_route_answers_404_witness:
  "as_mounted quiet_console POST [''api'', ''vapi'', ''webhook'']
       (Some (JObj [(''type'', JStr []), (''data'', JObj [])]))
     = Some \<lparr> statusCode = 404, body = ErrorText ''Route not found'' \<rparr>
   \<and> snd (webhook quiet_console (Some (JObj [(''type'', JStr []), (''data'', JObj [])])))
     = \<lparr> statusCode = 400, body = ErrorText ''Invalid webhook payload'' \<rparr>
   \<and> as_mounted quiet_console POST [''api'', ''vapi'', ''webhook'']
       (Some (JObj [(''type'', JStr ''call-ended''), (''data'', JObj [])]))
     = Some \<lparr> statusCode = 404, body = ErrorText ''Route not found'' \<rparr>
   \<and> snd (webhook quiet_console
            (Some (JObj [(''type'', JStr ''call-ended''), (''data'', JObj [])])))
     = \<lparr> statusCode = 200, body = Ack \<rparr>"
  using webhook_route_answers_404 [of quiet_console "Some (JObj [(''type'', JStr []), (''data'', JObj [])])"]
    webhook_route_answers_404 [of quiet_console
      "Some (JObj [(''type'', JStr ''call-ended''), (''data'', JObj [])])"]
  by (simp add: webhook_def dispatch_def)

section \<open>Listing calls\<close>

lemma digit_char_digit: "d < 10 \<Longrightarrow> digit_char d \<in> set ''0123456789''"
proof -
  assume "d < 10"
  then have "d < length ''0123456789''" by simp
  then show ?thesis unfolding digit_char_def by (rule nth_mem)
qed

lemma show_nat_digits: "set (show_nat n) \<subseteq> set ''0123456789''"
proof (induction n rule: show_nat.induct)
  case (1 n)
  show ?case
  proof (cases "n < 10")
    case True
    then show ?thesis
      using digit_char_digit [of n] by (subst show_nat.simps) simp
  next
    case False
    moreover have "digit_char (n mod 10) \<in> set ''0123456789''"
      by (rule digit_char_digit) simp
    ultimately show ?thesis
      using "1.IH" by (subst show_nat.simps) simp
  qed
qed

lemma show_nat_no_o: "CHR ''o'' \<notin> set (show_nat k)"
proof -
  have "CHR ''o'' \<notin> set ''0123456789''" by simp
  then show ?thesis using show_nat_digits [of k] by blast
qed

lemma strip_zeros_subset: "set (strip_zeros ds) \<subseteq> set ds"
  unfolding strip_zeros_def using set_dropWhileD [of _ _ "rev ds"] by auto

lemma exponent_form_no_o:
  assumes "CHR ''o'' \<notin> set ds"
  shows "CHR ''o'' \<notin> set (exponent_form ds)"
proof (cases "strip_zeros ds")
  case Nil
  then show ?thesis using assms by (simp add: exponent_form_def)
next
  case (Cons d rest)
  then have "set (d # rest) \<subseteq> set ds" using strip_zeros_subset [of ds] by simp
  then have "d \<noteq> CHR ''o''" "CHR ''o'' \<notin> set rest" using assms by auto
  then show ?thesis
    using Cons show_nat_no_o [of "length ds - 1"] by (simp add: exponent_form_def)
qed

lemma show_num_no_o: "CHR ''o'' \<notin> set (show_num n)"
proof (cases n)
  case (Num i)
  define ds where "ds = show_nat (nat \<bar>i\<bar>)"
  define shown where "shown = (if \<bar>i\<bar> < 10 ^ 21 then ds else exponent_form ds)"
  have "CHR ''o'' \<notin> set ds"
    unfolding ds_def by (rule show_nat_no_o)
  then have "CHR ''o'' \<notin> set shown"
    unfolding shown_def using exponent_form_no_o [of ds] by (simp only: split: if_split) blast
  moreover have "show_num (Num i) = (if i < 0 then CHR ''-'' # shown else shown)"
    unfolding shown_def ds_def by (simp only: show_num.simps Let_def)
  ultimately show ?thesis
    using Num by (cases "i < 0") simp_all
qed simp_all

lemma limit_path_no_offset:
  "\<not> (\<exists>pre post. ''/call?limit='' @ show_num n = pre @ ''offset'' @ post)"
proof
  assume "\<exists>pre post. ''/call?limit='' @ show_num n = pre @ ''offset'' @ post"
  then obtain pre post where e: "''/call?limit='' @ show_num n = pre @ ''offset'' @ post"
    by blast
  have "CHR ''o'' \<in> set (pre @ ''offset'' @ post)" by simp
  with e have "CHR ''o'' \<in> set (''/call?limit='' @ show_num n)" by simp
  then show False using show_num_no_o [of n] by simp
qed

lemma sent_getCalls_path:
  assumes "req \<in> set (fst (getCalls r w s lim))"
  shows "path req = ''/call?limit='' @ show_num (case lim of None \<Rightarrow> Num 100 | Some n \<Rightarrow> n)"
  using assms
  by (auto simp: getCalls_def Let_def fst_makeRequest path_prepared split: if_splits)

lemma fst_route_calls:
  "fst (route_calls r w parseInt (Some s) query)
     = fst (getCalls r w s (Some (case query ''limit'' of None \<Rightarrow> Num 50 | Some v \<Rightarrow> parseInt v)))"
  by (simp add: route_calls_def getCalls_call_def Let_def split: prod.splits sum.splits)

lemma show_num_examples:
  "show_num (Num 50) = ''50''" "show_num (Num 100) = ''100''"
  "show_num (Num 1000000000000000000000) = ''1e+21''"
  by (simp_all add: show_nat.simps exponent_form_def strip_zeros_def digit_char_def)

text \<open>
  C9, as amended.  The route \<^verbatim>\<open>GET /api/vapi/calls\<close> reads \<^verbatim>\<open>offset\<close> from the query and
  passes it to \<^verbatim>\<open>getCalls\<close> as second argument, where it is dropped: the route does the same
  whatever the \<^verbatim>\<open>offset\<close> of the query is.  Every request that the route or \<^verbatim>\<open>getCalls\<close>
  sends has the path \<^verbatim>\<open>/call?limit=\<close> followed by the text of the limit, in which the text
  \<^verbatim>\<open>offset\<close> does not occur.  On the route the limit is that of the query, and 50 when the
  query has none; the default 100 is that of \<^verbatim>\<open>getCalls\<close> called without an argument, which
  the route never does.
\<close>

theorem calls_route_drops_offset:
  "route_calls r w parseInt (Some s) (query(''offset'' := x))
     = route_calls r w parseInt (Some s) query
   \<and> getCalls_call r w s [limit, offset] = getCalls r w s (Some limit)
   \<and> (\<forall>req \<in> set (fst (route_calls r w parseInt (Some s) query)).
        path req = ''/call?limit=''
                     @ show_num (case query ''limit'' of None \<Rightarrow> Num 50 | Some v \<Rightarrow> parseInt v)
        \<and> \<not> (\<exists>pre post. path req = pre @ ''offset'' @ post))
   \<and> (\<forall>req \<in> set (fst (getCalls r w s lim)).
        path req = ''/call?limit='' @ show_num (case lim of None \<Rightarrow> Num 100 | Some n \<Rightarrow> n)
        \<and> \<not> (\<exists>pre post. path req = pre @ ''offset'' @ post))
   \<and> show_num (Num 50) = ''50'' \<and> show_num (Num 100) = ''100''"
proof (intro conjI ballI)
  show "route_calls r w parseInt (Some s) (query(''offset'' := x))
          = route_calls r w parseInt (Some s) query"
    by (simp add: route_calls_def getCalls_call_def Let_def)
  show "getCalls_call r w s [limit, offset] = getCalls r w s (Some limit)"
    by (simp add: getCalls_call_def)
  show "show_num (Num 50) = ''50''" "show_num (Num 100) = ''100''"
    by (rule show_num_examples)+
next
  fix req assume "req \<in> set (fst (route_calls r w parseInt (Some s) query))"
  then have p: "path req = ''/call?limit=''
                     @ show_num (case query ''limit'' of None \<Rightarrow> Num 50 | Some v \<Rightarrow> parseInt v)"
    using sent_getCalls_path by (simp add: fst_route_calls)
  then show "path req = ''/call?limit=''
                     @ show_num (case query ''limit'' of None \<Rightarrow> Num 50 | Some v \<Rightarrow> parseInt v)" .
  from p show "\<not> (\<exists>pre post. path req = pre @ ''offset'' @ post)"
    using limit_path_no_offset by simp
next
  fix req assume "req \<in> set (fst (getCalls r w s lim))"
  then have p: "path req = ''/call?limit='' @ show_num (case lim of None \<Rightarrow> Num 100 | Some n \<Rightarrow> n)"
    by (rule sent_getCalls_path)
  then show "path req = ''/call?limit='' @ show_num (case lim of None \<Rightarrow> Num 100 | Some n \<Rightarrow> n)" .
  from p show "\<not> (\<exists>pre post. path req = pre @ ''offset'' @ post)"
    using limit_path_no_offset by simp
qed

theorem calls_route_drops_offset_witness:
  "map path (fst (route_calls Server_js (world_replying 200 ''[]'' (Some (JArr [])))
       sample_parseInt (Some (VapiService Server_js full_env)) sample_query))
     = [''/call?limit=10'']
   \<and> route_calls Server_js (world_replying 200 ''[]'' (Some (JArr [])))
       sample_parseInt (Some (VapiService Server_js full_env)) (sample_query(''offset'' := None))
     = route_calls Server_js (world_replying 200 ''[]'' (Some (JArr [])))
       sample_parseInt (Some (VapiService Server_js full_env)) sample_query
   \<and> map path (fst (getCalls Server_js (world_replying 200 ''[]'' (Some (JArr [])))
       (VapiService Server_js full_env) None))
     = [''/call?limit=100'']
   \<and> map path (fst (getCalls Server_js (world_replying 200 ''[]'' (Some (JArr [])))
       (VapiService Server_js full_env) (Some (Num 1000000000000000000000))))
     = [''/call?limit=1e+21'']"
proof -
  have sent: "fst (getCalls Server_js w (VapiService Server_js full_env) lim)
      = [prepared Server_js
           \<lparr> hostname = ''api.vapi.ai'',
             path = ''/call?limit='' @ show_num (case lim of None \<Rightarrow> Num 100 | Some n \<Rightarrow> n),
             httpMethod = GET, headers = bearer_headers (Some ''sk_private''), payload = None \<rparr>
           None]" for w lim
    by (simp add: getCalls_def fst_makeRequest value_defs service_defs sample_defs)
  have same: "route_calls Server_js (world_replying 200 ''[]'' (Some (JArr [])))
       sample_parseInt (Some (VapiService Server_js full_env)) (sample_query(''offset'' := None))
     = route_calls Server_js (world_replying 200 ''[]'' (Some (JArr [])))
       sample_parseInt (Some (VapiService Server_js full_env)) sample_query"
    using calls_route_drops_offset [of Server_js "world_replying 200 ''[]'' (Some (JArr []))"
        sample_parseInt "VapiService Server_js full_env" sample_query None "Num 10" "Num 20" None]
    by (simp only:)
  have ten: "show_num (Num 10) = ''10''"
    by (simp add: show_nat.simps digit_char_def)
  have limit: "sample_query ''limit'' = Some ''10''"
    by (simp add: sample_query_def)
  show ?thesis
    by (simp add: same fst_route_calls sent path_prepared limit sample_parseInt_def
        ten show_num_examples del: show_num.simps)
qed

text \<open>
  A listing request without \<^verbatim>\<open>limit\<close> in its query is forwarded with \<^verbatim>\<open>limit=50\<close>, not with
  the default 100 of \<^verbatim>\<open>getCalls\<close>.
\<close>

theorem calls_route_default_limit_counterexample:
  "map path (fst (route_calls Part_002 (world_replying 200 ''[]'' (Some (JArr [])))
       sample_parseInt (Some (VapiService Part_002 full_env)) empty_query))
     = [''/call?limit=50'']
   \<and> ''/call?limit=50'' \<noteq> ''/call?limit=100''"
  by (simp add: route_calls_def getCalls_call_def getCalls_def empty_query_def
      show_nat.simps digit_char_def value_defs transport_defs service_defs sample_defs)

end
